theory Spec2Isabelle
  imports Complex_Main
begin

section \<open>JavaScript values used by the combat engine\<close>

text \<open>
  A JavaScript number: a finite value (every finite double is a rational), or one of the
  three non-finite doubles.  The sign of zero is not represented; no operation modelled here
  tells \<open>-0\<close> from \<open>0\<close>.  Numbers that the code only ever holds as integers (ability scores,
  levels, die rolls, grid coordinates) are modelled by \<open>int\<close>, and the visible stats, costs
  and bonuses that the engine reads by \<open>rat\<close>.  The damage computations multiply by
  fractions and round down, so there the arithmetic is that of IEEE 754 doubles, given
  below.
\<close>

datatype js_number = Finite rat | NaN | PosInfinity | NegInfinity

fun negate :: "js_number \<Rightarrow> js_number" where
  "negate (Finite q) = Finite (- q)"
| "negate NaN = NaN"
| "negate PosInfinity = NegInfinity"
| "negate NegInfinity = PosInfinity"

section \<open>Double-precision arithmetic\<close>

text \<open>
  The finite doubles are the rationals \<open>m * 2^e\<close> with \<open>|m| < 2^53\<close> and
  \<open>-1074 \<le> e \<le> 971\<close>.  \<open>ulp k\<close> is the spacing \<open>2^(k - 1074)\<close> of the doubles whose
  magnitude lies below \<open>2^53 * ulp k\<close>: \<open>k = 0\<close> for the subnormal numbers and the first
  binade of normal ones, \<open>k = 2045\<close> for the last binade, which ends at \<open>2^1024\<close>.
\<close>

definition ulp :: "nat \<Rightarrow> rat" where
  "ulp k = 2 ^ k / 2 ^ 1074"

text \<open>The least \<open>k\<close> from the start value on with \<open>q < 2^53 * ulp k\<close>, and 2046 if there is none.\<close>

function binade :: "rat \<Rightarrow> nat \<Rightarrow> nat" where
  "binade q k = (if 2046 \<le> k \<or> q < 2 ^ 53 * ulp k then k else binade q (Suc k))"
  by pat_completeness auto
termination by (relation "measure (\<lambda>(q, k). 2046 - k)") auto

declare binade.simps [simp del]

text \<open>The nearest integer, the even one of the two when both are equally near.\<close>

definition roundHalfEven :: "rat \<Rightarrow> int" where
  "roundHalfEven x =
     (let n = \<lfloor>x\<rfloor>; r = x - of_int n
      in if r < 1 / 2 then n else if 1 / 2 < r then n + 1 else if even n then n else n + 1)"

text \<open>
  The double that an exact result is rounded to (round to nearest, ties to even): the result
  of every arithmetic operation on finite doubles, and the value of a decimal literal.  A
  result that rounds to \<open>2^1024\<close> or beyond in magnitude is an infinity.
\<close>

definition roundDouble :: "rat \<Rightarrow> js_number" where
  "roundDouble q =
     (let u = ulp (binade \<bar>q\<bar> 0); r = of_int (roundHalfEven (q / u)) * u
      in if 2 ^ 1024 \<le> r then PosInfinity
         else if r \<le> - (2 ^ 1024) then NegInfinity
         else Finite r)"

text \<open>
  The operators \<open>+\<close>, \<open>-\<close>, \<open>*\<close> and \<open><=\<close> on numbers.  A stat, an amount or a bonus that
  enters a computation as \<open>Finite q\<close> is taken to be a double; the result of every operation
  is one, or an infinity, or \<open>NaN\<close>.
\<close>

fun num_add :: "js_number \<Rightarrow> js_number \<Rightarrow> js_number" where
  "num_add (Finite a) (Finite b) = roundDouble (a + b)"
| "num_add NaN y = NaN"
| "num_add x NaN = NaN"
| "num_add PosInfinity NegInfinity = NaN"
| "num_add NegInfinity PosInfinity = NaN"
| "num_add PosInfinity y = PosInfinity"
| "num_add NegInfinity y = NegInfinity"
| "num_add (Finite a) y = y"

definition num_sub :: "js_number \<Rightarrow> js_number \<Rightarrow> js_number" where
  "num_sub x y = num_add x (negate y)"

fun num_sign :: "js_number \<Rightarrow> rat" where
  "num_sign (Finite q) = sgn q"
| "num_sign NaN = 0"
| "num_sign PosInfinity = 1"
| "num_sign NegInfinity = - 1"

fun num_mul :: "js_number \<Rightarrow> js_number \<Rightarrow> js_number" where
  "num_mul (Finite a) (Finite b) = roundDouble (a * b)"
| "num_mul NaN y = NaN"
| "num_mul x NaN = NaN"
| "num_mul x y =
     (if num_sign x * num_sign y = 0 then NaN
      else if 0 < num_sign x * num_sign y then PosInfinity else NegInfinity)"


text \<open>\<open>Math.min\<close>, \<open>Math.max\<close> and \<open>Math.floor\<close>\<close>

fun Math_min :: "js_number \<Rightarrow> js_number \<Rightarrow> js_number" where
  "Math_min (Finite a) (Finite b) = Finite (min a b)"
| "Math_min NaN y = NaN"
| "Math_min x NaN = NaN"
| "Math_min NegInfinity y = NegInfinity"
| "Math_min x NegInfinity = NegInfinity"
| "Math_min PosInfinity y = y"
| "Math_min x PosInfinity = x"

fun Math_max :: "js_number \<Rightarrow> js_number \<Rightarrow> js_number" where
  "Math_max (Finite a) (Finite b) = Finite (max a b)"
| "Math_max NaN y = NaN"
| "Math_max x NaN = NaN"
| "Math_max PosInfinity y = PosInfinity"
| "Math_max x PosInfinity = PosInfinity"
| "Math_max NegInfinity y = y"
| "Math_max x NegInfinity = x"

fun Math_floor :: "js_number \<Rightarrow> js_number" where
  "Math_floor (Finite q) = Finite (of_int \<lfloor>q\<rfloor>)"
| "Math_floor x = x"

section \<open>DeterministicRNG.js\<close>

record rng =
  originalSeed :: js_number
  state :: nat
  callCount :: nat

datatype rng_error = InvalidRange int int | InvalidDice int int

text \<open>
  \<open>Math.abs(Math.floor(seed)) >>> 0\<close>: floor, absolute value, then ToUint32, which is the
  value modulo \<open>2^32\<close> on finite numbers and \<open>0\<close> on \<open>NaN\<close> and the infinities.
\<close>

fun normalizeSeed :: "js_number \<Rightarrow> nat" where
  "normalizeSeed (Finite q) = nat \<bar>\<lfloor>q\<rfloor>\<bar> mod 2 ^ 32"
| "normalizeSeed NaN = 0"
| "normalizeSeed PosInfinity = 0"
| "normalizeSeed NegInfinity = 0"

definition DeterministicRNG :: "js_number \<Rightarrow> rng" where
  "DeterministicRNG seed = \<lparr>originalSeed = seed, state = normalizeSeed seed, callCount = 0\<rparr>"

text \<open>
  The linear congruential step \<open>(1664525 * state + 1013904223) >>> 0\<close>.  For a state below
  \<open>2^32\<close> the product and the sum stay below \<open>2^53\<close>, so the double arithmetic of the source
  is exact and \<open>>>> 0\<close> is the remainder modulo \<open>2^32\<close>.
\<close>

definition lcg :: "nat \<Rightarrow> nat" where
  "lcg s = (1664525 * s + 1013904223) mod 2 ^ 32"

definition nextRaw :: "rng \<Rightarrow> nat \<times> rng" where
  "nextRaw r = (let s = lcg (state r) in (s, r\<lparr>state := s, callCount := callCount r + 1\<rparr>))"

definition random :: "rng \<Rightarrow> rat \<times> rng" where
  "random r = (let (v, r') = nextRaw r in (of_nat v / 2 ^ 32, r'))"

definition randInt :: "int \<Rightarrow> int \<Rightarrow> rng \<Rightarrow> rng_error + (int \<times> rng)" where
  "randInt lo hi r =
     (if lo > hi then Inl (InvalidRange lo hi)
      else let span = hi - lo + 1; (v, r') = nextRaw r
           in Inr (lo + int v mod span, r'))"

definition D20_MIN :: int where "D20_MIN = 1"
definition D20_MAX :: int where "D20_MAX = 20"

definition rollD20 :: "rng \<Rightarrow> rng_error + (int \<times> rng)" where
  "rollD20 r = randInt D20_MIN D20_MAX r"

definition reset :: "rng \<Rightarrow> rng" where
  "reset r = r\<lparr>state := normalizeSeed (originalSeed r), callCount := 0\<rparr>"

text \<open>The loop \<open>for (i = 0; i < n; i++) sequence.push(this.random())\<close>.\<close>

fun randoms :: "nat \<Rightarrow> rng \<Rightarrow> rat list \<times> rng" where
  "randoms 0 r = ([], r)"
| "randoms (Suc n) r =
     (let (v, r') = random r; (vs, r'') = randoms n r' in (v # vs, r''))"

text \<open>The same loop drawing with \<open>rollD20()\<close>; an error of a draw ends the run.\<close>

fun rollsD20 :: "nat \<Rightarrow> rng \<Rightarrow> rng_error + (int list \<times> rng)" where
  "rollsD20 0 r = Inr ([], r)"
| "rollsD20 (Suc n) r =
     (case rollD20 r of
        Inl e \<Rightarrow> Inl e
      | Inr (v, r') \<Rightarrow>
          (case rollsD20 n r' of Inl e \<Rightarrow> Inl e | Inr (vs, r'') \<Rightarrow> Inr (v # vs, r'')))"

text \<open>
  \<open>validateReproducibility\<close>: save the state, generate twice after a reset, restore the
  state, compare.
\<close>

definition validateReproducibility :: "nat \<Rightarrow> rng \<Rightarrow> bool \<times> rng" where
  "validateReproducibility iterations r =
     (let originalState = r;
          (firstSequence, r1) = randoms iterations (reset r);
          (secondSequence, r2) = randoms iterations (reset r1);
          r3 = r2\<lparr>originalSeed := originalSeed originalState,
                  state := state originalState,
                  callCount := callCount originalState\<rparr>
      in (firstSequence = secondSequence, r3))"


section \<open>Strings and optional properties\<close>

text \<open>\<open>String.prototype.toLowerCase\<close> and \<open>toUpperCase\<close>, on the ASCII letters.\<close>

definition lowerChar :: "char \<Rightarrow> char" where
  "lowerChar c =
     (case map_of (zip ''ABCDEFGHIJKLMNOPQRSTUVWXYZ'' ''abcdefghijklmnopqrstuvwxyz'') c of
        None \<Rightarrow> c | Some d \<Rightarrow> d)"

definition upperChar :: "char \<Rightarrow> char" where
  "upperChar c =
     (case map_of (zip ''abcdefghijklmnopqrstuvwxyz'' ''ABCDEFGHIJKLMNOPQRSTUVWXYZ'') c of
        None \<Rightarrow> c | Some d \<Rightarrow> d)"

definition toLowerCase :: "string \<Rightarrow> string" where
  "toLowerCase s = map lowerChar s"

definition toUpperCase :: "string \<Rightarrow> string" where
  "toUpperCase s = map upperChar s"

text \<open>\<open>String.prototype.includes\<close>: the argument occurs as a contiguous substring.\<close>

fun stringIncludes :: "string \<Rightarrow> string \<Rightarrow> bool" where
  "stringIncludes [] sub = (sub = [])"
| "stringIncludes (c # cs) sub = (take (length sub) (c # cs) = sub \<or> stringIncludes cs sub)"

text \<open>
  \<open>x || d\<close> on an optional numeric property: the default is taken when the property is
  absent and when it is \<open>0\<close>.
\<close>

definition orDefault :: "rat option \<Rightarrow> rat \<Rightarrow> rat" where
  "orDefault v d = (case v of None \<Rightarrow> d | Some x \<Rightarrow> if x = 0 then d else x)"

text \<open>A plain JavaScript object whose properties are numbers.\<close>

type_synonym js_object = "string \<rightharpoonup> rat"

section \<open>GameConstants.js\<close>

definition ABILITY_MIN :: int where "ABILITY_MIN = 3"
definition ABILITY_MAX :: int where "ABILITY_MAX = 18"
definition ABILITY_BASE :: int where "ABILITY_BASE = 10"
definition MODIFIER_DIVISOR :: rat where "MODIFIER_DIVISOR = 2"
definition MODIFIER_OFFSET :: rat where "MODIFIER_OFFSET = 10"

definition NATURAL_CRIT :: rat where "NATURAL_CRIT = 20"
definition NATURAL_FUMBLE :: int where "NATURAL_FUMBLE = 1"
definition BASE_DEFENSE_VALUE :: rat where "BASE_DEFENSE_VALUE = 10"
definition MAX_THREAT_RANGE :: rat where "MAX_THREAT_RANGE = 18"

definition MAX_PER_TURN :: rat where "MAX_PER_TURN = 3"

definition RANGED_ATTACK_BONUS :: rat where "RANGED_ATTACK_BONUS = 1 / 10"

section \<open>D20Engine.js: the hidden rules engine\<close>

datatype d20_error = InvalidAbility string

definition calculateModifier :: "rat \<Rightarrow> int" where
  "calculateModifier abilityScore = \<lfloor>(abilityScore - MODIFIER_OFFSET) / MODIFIER_DIVISOR\<rfloor>"

definition calculateProficiency :: "int \<Rightarrow> int" where
  "calculateProficiency level =
     (if level \<ge> 61 then 6
      else if level \<ge> 41 then 5
      else if level \<ge> 21 then 4
      else if level \<ge> 11 then 3
      else 2)"

record abilities =
  aSTR :: int
  aDEX :: int
  aCON :: int
  aINT :: int
  aWIS :: int
  aCHA :: int

text \<open>
  \<open>getModifier(ability)\<close> reads the score \<open>this[ability.toUpperCase()]\<close> and throws
  \<open>Invalid ability\<close> when there is none.
\<close>

definition getScore :: "abilities \<Rightarrow> string \<Rightarrow> int option" where
  "getScore a key =
     (if key = ''STR'' then Some (aSTR a)
      else if key = ''DEX'' then Some (aDEX a)
      else if key = ''CON'' then Some (aCON a)
      else if key = ''INT'' then Some (aINT a)
      else if key = ''WIS'' then Some (aWIS a)
      else if key = ''CHA'' then Some (aCHA a)
      else None)"

definition getModifier :: "abilities \<Rightarrow> string \<Rightarrow> d20_error + int" where
  "getModifier a ability =
     (case getScore a (toUpperCase ability) of
        None \<Rightarrow> Inl (InvalidAbility ability)
      | Some score \<Rightarrow> Inr (calculateModifier (of_int score)))"

text \<open>The visible stat block of a unit (\<open>VISIBLE_STATS\<close>).\<close>

record stats =
  vHP :: rat
  vMP :: rat
  vATK :: rat
  vDEF :: rat
  vMAG :: rat
  vRES :: rat
  vAGL :: rat
  vINT :: rat
  vMOV :: rat
  vRNG :: rat
  vLCK :: rat

text \<open>\<open>DefenseCalculator.calculatePhysicalDV\<close>\<close>

definition calculatePhysicalDV :: "abilities \<Rightarrow> js_object \<Rightarrow> js_object \<Rightarrow> d20_error + rat" where
  "calculatePhysicalDV abils equipment situational =
     (let baseDV = BASE_DEFENSE_VALUE;
          armorBonus = orDefault (equipment ''armor'') 0
      in case getModifier abils ''DEX'' of
           Inl e \<Rightarrow> Inl e
         | Inr dexMod \<Rightarrow>
             (let coverBonus = orDefault (situational ''cover'') 0;
                  heightBonus = orDefault (situational ''height'') 0;
                  buffs = orDefault (situational ''buffs'') 0
              in Inr (baseDV + armorBonus + of_int dexMod + coverBonus + heightBonus + buffs)))"

text \<open>\<open>DefenseCalculator.calculateMagicalDV\<close>\<close>

definition calculateMagicalDV :: "abilities \<Rightarrow> js_object \<Rightarrow> js_object \<Rightarrow> d20_error + rat" where
  "calculateMagicalDV abils equipment situational =
     (let baseDV = BASE_DEFENSE_VALUE;
          resBonus = orDefault (equipment ''resistance'') 0
      in case getModifier abils ''WIS'' of
           Inl e \<Rightarrow> Inl e
         | Inr wisMod \<Rightarrow>
             (let coverBonus = orDefault (situational ''magicalCover'') 0;
                  buffs = orDefault (situational ''buffs'') 0
              in Inr (baseDV + resBonus + of_int wisMod + coverBonus + buffs)))"

text \<open>\<open>AttackCalculator.calculatePhysicalAttack\<close>\<close>

definition calculatePhysicalAttack ::
  "abilities \<Rightarrow> int \<Rightarrow> bool \<Rightarrow> js_object \<Rightarrow> d20_error + rat" where
  "calculatePhysicalAttack abils level isRanged equipment =
     (let proficiency = calculateProficiency level
      in case (if isRanged then getModifier abils ''DEX'' else getModifier abils ''STR'') of
           Inl e \<Rightarrow> Inl e
         | Inr abilityMod \<Rightarrow>
             (let equipmentBonus = orDefault (equipment ''weapon'') 0
              in Inr (of_int proficiency + of_int abilityMod + equipmentBonus)))"

text \<open>\<open>AttackCalculator.calculateSpellAttack\<close>\<close>

definition calculateSpellAttack ::
  "abilities \<Rightarrow> int \<Rightarrow> string \<Rightarrow> js_object \<Rightarrow> d20_error + rat" where
  "calculateSpellAttack abils level primaryAbility equipment =
     (let proficiency = calculateProficiency level
      in case getModifier abils primaryAbility of
           Inl e \<Rightarrow> Inl e
         | Inr abilityMod \<Rightarrow>
             (let equipmentBonus = orDefault (equipment ''focus'') 0
              in Inr (of_int proficiency + of_int abilityMod + equipmentBonus)))"

record threat_range =
  minThreat :: rat
  maxThreat :: rat
  extension :: rat

text \<open>\<open>CriticalSystem.calculateThreatRange\<close>\<close>

definition calculateThreatRange :: "abilities \<Rightarrow> stats \<Rightarrow> js_object \<Rightarrow> d20_error + threat_range" where
  "calculateThreatRange abils visibleStats equipment =
     (case getModifier abils ''INT'' of
        Inl e \<Rightarrow> Inl e
      | Inr intMod \<Rightarrow>
          (let lckMod = calculateModifier (orDefault (Some (vLCK visibleStats)) 8);
               equipmentMod = orDefault (equipment ''criticalModifier'') 0;
               ext = max 0 (of_int intMod + of_int lckMod + equipmentMod);
               maxExtension = NATURAL_CRIT - MAX_THREAT_RANGE;
               actualExtension = min ext maxExtension
           in Inr \<lparr>minThreat = NATURAL_CRIT - actualExtension, maxThreat = NATURAL_CRIT,
                    extension = actualExtension\<rparr>))"

definition isCriticalHit :: "int \<Rightarrow> threat_range \<Rightarrow> bool" where
  "isCriticalHit roll threatRange = (of_int roll \<ge> minThreat threatRange)"

definition isFumble :: "int \<Rightarrow> bool" where
  "isFumble roll = (roll = NATURAL_FUMBLE)"

text \<open>The roll object returned by \<open>rollD20WithCondition\<close>.\<close>

record d20_roll =
  result :: int
  rolls :: "int list"
  advantage :: bool
  disadvantage :: bool

text \<open>
  The attacker and defender data handed to the engine: hidden abilities, level, the
  equipment bonus object, the current visible stats and the situational bonus object.
  An absent \<open>equipment\<close> or \<open>situational\<close> object is the empty object (the default
  parameter \<open>{}\<close> of the calculators).
\<close>

record combatant =
  d_abilities :: abilities
  d_level :: int
  d_equipment :: js_object
  d_visibleStats :: stats
  d_situational :: js_object

record attack_result =
  hit :: bool
  critical :: bool
  fumble :: bool
  totalAttack :: rat
  defenseValue :: rat
  attackRoll :: int
  attackBonus :: rat
  margin :: rat
  threatRange :: threat_range

datatype engine_error = PhysicalAttackFailed d20_error

text \<open>
  \<open>D20Engine.resolvePhysicalAttack\<close>; the \<open>catch\<close> block rethrows any error of the
  calculators as \<open>Physical attack resolution failed\<close>.  The calculation log is write-only
  and left out.
\<close>

definition resolvePhysicalAttack ::
  "combatant \<Rightarrow> combatant \<Rightarrow> d20_roll \<Rightarrow> bool \<Rightarrow> engine_error + attack_result" where
  "resolvePhysicalAttack attacker defender roll isRanged =
     (case calculatePhysicalAttack (d_abilities attacker) (d_level attacker) isRanged
             (d_equipment attacker) of
        Inl e \<Rightarrow> Inl (PhysicalAttackFailed e)
      | Inr bonus \<Rightarrow>
     (case calculatePhysicalDV (d_abilities defender) (d_equipment defender)
             (d_situational defender) of
        Inl e \<Rightarrow> Inl (PhysicalAttackFailed e)
      | Inr dv \<Rightarrow>
     (let total = of_int (result roll) + bonus;
          isHit = (total \<ge> dv)
      in case calculateThreatRange (d_abilities attacker) (d_visibleStats attacker)
                (d_equipment attacker) of
           Inl e \<Rightarrow> Inl (PhysicalAttackFailed e)
         | Inr threat \<Rightarrow>
             Inr \<lparr>hit = isHit,
                  critical = (isHit \<and> isCriticalHit (result roll) threat),
                  fumble = isFumble (result roll),
                  totalAttack = total, defenseValue = dv,
                  attackRoll = result roll, attackBonus = bonus,
                  margin = total - dv,
                  threatRange = threat\<rparr>)))"


section \<open>Unit.js: status effects, equipment and units\<close>

text \<open>An AP cost or AP restoration modifier object \<open>{type, value}\<close>.\<close>

record cost_modifier =
  m_type :: string
  m_value :: rat

text \<open>
  The \<open>effects\<close> object of a status effect.  \<open>statMods\<close> holds its numeric properties
  (the stat modifications read by \<open>getModifiers\<close>); the other fields are the nested
  objects and numbers that the combat systems look up by name, absent when \<open>None\<close>.
\<close>

record effect_data =
  statMods :: js_object
  resistance :: "js_object option"
  damageBonus :: "js_object option"
  damageMultiplier :: "js_object option"
  damageVulnerability :: "js_object option"
  damageReduction :: "js_object option"
  apCostModifier :: "(string \<rightharpoonup> cost_modifier) option"
  apRestoration :: "cost_modifier option"
  initiativeBonus :: "rat option"

record status_effect =
  effect_name :: string
  effect_type :: string
  duration :: rat
  intensity :: rat
  effects :: effect_data

definition hasExpired :: "status_effect \<Rightarrow> bool" where
  "hasExpired e = (duration e \<le> 0)"

text \<open>\<open>StatusEffect.getModifiers\<close>: every stat modification times the intensity.\<close>

definition getModifiers :: "status_effect \<Rightarrow> js_object" where
  "getModifiers e =
     (if hasExpired e then Map.empty
      else (\<lambda>stat. case statMods (effects e) stat of
                      None \<Rightarrow> None
                    | Some v \<Rightarrow> Some (v * intensity e)))"

text \<open>An entry of an item's \<open>specialEffects\<close> list.\<close>

record special_effect =
  se_type :: string
  se_name :: string
  se_damageType :: "string option"
  se_actionType :: "string option"
  se_value :: "rat option"

text \<open>class \<open>Equipment\<close>\<close>

record equipment_item =
  item_id :: string
  item_name :: string
  item_type :: string
  durability :: rat
  statModifiers :: js_object
  abilityModifiers :: "(string \<times> rat) list"
  specialEffects :: "special_effect list"

definition isBroken :: "equipment_item \<Rightarrow> bool" where
  "isBroken item = (durability item \<le> 0)"

definition getAbilityModifiers :: "equipment_item \<Rightarrow> (string \<times> rat) list" where
  "getAbilityModifiers item = (if isBroken item then [] else abilityModifiers item)"

text \<open>
  class \<open>Unit\<close>.  The \<open>equipment\<close> map is the list of its values in insertion order, the
  order in which the code iterates over it.  \<open>currentHP\<close> is written by \<open>takeDamage\<close> with
  the result of double arithmetic.
\<close>

record game_unit =
  unit_id :: string
  unit_name :: string
  unit_class :: string
  level :: int
  hiddenAbilities :: abilities
  equipment :: "equipment_item list"
  baseStats :: stats
  currentHP :: js_number
  currentAP :: rat
  statusEffects :: "status_effect list"
  isIncapacitated :: bool
  position :: "int \<times> int"
  facing :: string
  hasActedThisTurn :: bool

text \<open>
  One round of the inner loop of \<open>getCurrentStats\<close>: each stat that the effect modifies
  becomes \<open>Math.max(0, base[stat] + modifier)\<close>.
\<close>

definition modifyStat :: "js_object \<Rightarrow> string \<Rightarrow> rat \<Rightarrow> rat" where
  "modifyStat modifiers stat b =
     (case modifiers stat of None \<Rightarrow> b | Some modifier \<Rightarrow> max 0 (b + modifier))"

definition applyEffect :: "stats \<Rightarrow> status_effect \<Rightarrow> stats" where
  "applyEffect base e =
     (let modifiers = getModifiers e
      in \<lparr>vHP = modifyStat modifiers ''HP'' (vHP base),
          vMP = modifyStat modifiers ''MP'' (vMP base),
          vATK = modifyStat modifiers ''ATK'' (vATK base),
          vDEF = modifyStat modifiers ''DEF'' (vDEF base),
          vMAG = modifyStat modifiers ''MAG'' (vMAG base),
          vRES = modifyStat modifiers ''RES'' (vRES base),
          vAGL = modifyStat modifiers ''AGL'' (vAGL base),
          vINT = modifyStat modifiers ''INT'' (vINT base),
          vMOV = modifyStat modifiers ''MOV'' (vMOV base),
          vRNG = modifyStat modifiers ''RNG'' (vRNG base),
          vLCK = modifyStat modifiers ''LCK'' (vLCK base)\<rparr>)"

definition getCurrentStats :: "game_unit \<Rightarrow> stats" where
  "getCurrentStats u = foldl applyEffect (baseStats u) (statusEffects u)"

text \<open>
  \<open>getEquipmentAbilityModifiers\<close>: the sum, per key, of the ability modifiers of all
  unbroken items.
\<close>

definition addModifierEntry :: "js_object \<Rightarrow> string \<times> rat \<Rightarrow> js_object" where
  "addModifierEntry combined kv =
     combined(fst kv \<mapsto> orDefault (combined (fst kv)) 0 + snd kv)"

definition getEquipmentAbilityModifiers :: "game_unit \<Rightarrow> js_object" where
  "getEquipmentAbilityModifiers u =
     foldl (\<lambda>combined item. foldl addModifierEntry combined (getAbilityModifiers item))
       Map.empty (equipment u)"

text \<open>\<open>getHiddenData\<close>, in the shape the engine consumes.\<close>

definition getHiddenData :: "game_unit \<Rightarrow> combatant" where
  "getHiddenData u =
     \<lparr>d_abilities = hiddenAbilities u, d_level = level u,
      d_equipment = getEquipmentAbilityModifiers u,
      d_visibleStats = getCurrentStats u, d_situational = Map.empty\<rparr>"


text \<open>
  The \<open>switch (type)\<close> of \<open>takeDamage\<close>: the mitigation fraction before it is capped.
  \<open>roundDouble (2 / 100)\<close> is the literal \<open>0.02\<close>.
\<close>

definition damageMitigation :: "game_unit \<Rightarrow> string \<Rightarrow> js_number" where
  "damageMitigation u type =
     (let currentStats = getCurrentStats u
      in if type = ''physical''
           then num_mul (Finite (vDEF currentStats)) (roundDouble (2 / 100))
         else if type = ''magical''
           then num_mul (Finite (vRES currentStats)) (roundDouble (2 / 100))
         else Finite 0)"

text \<open>\<open>Math.max(1, Math.floor(amount * (1 - Math.min(0.9, mitigation))))\<close>\<close>

definition mitigatedDamage :: "game_unit \<Rightarrow> rat \<Rightarrow> string \<Rightarrow> js_number" where
  "mitigatedDamage u amount type =
     Math_max (Finite 1)
       (Math_floor
          (num_mul (Finite amount)
             (num_sub (Finite 1) (Math_min (roundDouble (9 / 10)) (damageMitigation u type)))))"


text \<open>\<open>Unit.spendAP\<close>\<close>

definition unitSpendAP :: "game_unit \<Rightarrow> rat \<Rightarrow> bool \<times> game_unit" where
  "unitSpendAP u cost =
     (if currentAP u \<ge> cost \<and> \<not> isIncapacitated u
      then (True, u\<lparr>currentAP := max 0 (currentAP u - cost), hasActedThisTurn := True\<rparr>)
      else (False, u))"


section \<open>DamageCalculator.js\<close>

record damage_profile =
  dice :: int
  sides :: int
  modifier :: "string option"
  damage_type :: string

definition WEAPON_DAMAGE :: "string \<rightharpoonup> damage_profile" where
  "WEAPON_DAMAGE = map_of
     [(''SWORD'', \<lparr>dice = 2, sides = 6, modifier = Some ''STR'', damage_type = ''slashing''\<rparr>),
      (''DAGGER'', \<lparr>dice = 1, sides = 4, modifier = Some ''DEX'', damage_type = ''piercing''\<rparr>),
      (''MACE'', \<lparr>dice = 1, sides = 8, modifier = Some ''STR'', damage_type = ''bludgeoning''\<rparr>),
      (''SPEAR'', \<lparr>dice = 1, sides = 6, modifier = Some ''STR'', damage_type = ''piercing''\<rparr>),
      (''HALBERD'', \<lparr>dice = 1, sides = 10, modifier = Some ''STR'', damage_type = ''slashing''\<rparr>),
      (''BOW'', \<lparr>dice = 1, sides = 8, modifier = Some ''DEX'', damage_type = ''piercing''\<rparr>),
      (''CROSSBOW'', \<lparr>dice = 1, sides = 10, modifier = Some ''DEX'', damage_type = ''piercing''\<rparr>),
      (''STAFF'', \<lparr>dice = 1, sides = 6, modifier = Some ''INT'', damage_type = ''magical''\<rparr>),
      (''TOME'', \<lparr>dice = 1, sides = 4, modifier = Some ''INT'', damage_type = ''magical''\<rparr>),
      (''DUAL_WIELD'', \<lparr>dice = 1, sides = 6, modifier = Some ''DEX'', damage_type = ''slashing''\<rparr>)]"

definition SPELL_DAMAGE :: "string \<rightharpoonup> damage_profile" where
  "SPELL_DAMAGE = map_of
     [(''MAGIC_MISSILE'', \<lparr>dice = 3, sides = 4, modifier = Some ''INT'', damage_type = ''magical''\<rparr>),
      (''FIREBALL'', \<lparr>dice = 6, sides = 6, modifier = Some ''INT'', damage_type = ''fire''\<rparr>),
      (''ICE_SHARD'', \<lparr>dice = 4, sides = 6, modifier = Some ''INT'', damage_type = ''ice''\<rparr>),
      (''LIGHTNING_BOLT'', \<lparr>dice = 5, sides = 6, modifier = Some ''INT'', damage_type = ''lightning''\<rparr>),
      (''HOLY_LIGHT'', \<lparr>dice = 4, sides = 6, modifier = Some ''WIS'', damage_type = ''holy''\<rparr>),
      (''DIVINE_WRATH'', \<lparr>dice = 3, sides = 8, modifier = Some ''WIS'', damage_type = ''holy''\<rparr>),
      (''POISON_CLOUD'', \<lparr>dice = 2, sides = 4, modifier = Some ''INT'', damage_type = ''poison''\<rparr>),
      (''BURNING'', \<lparr>dice = 1, sides = 6, modifier = None, damage_type = ''fire''\<rparr>)]"












datatype damage_error =
    UnknownWeaponType string
  | UnknownSpellType string
  | AbilityError d20_error
  | DiceError rng_error

text \<open>The dice loop: \<open>count\<close> calls of \<open>rng.randInt(1, sides)\<close>, pushed onto \<open>diceRolls\<close>.\<close>

fun rollDamageDice :: "nat \<Rightarrow> int \<Rightarrow> rng \<Rightarrow> rng_error + (int list \<times> rng)" where
  "rollDamageDice 0 n r = Inr ([], r)"
| "rollDamageDice (Suc k) n r =
     (case randInt 1 n r of
        Inl e \<Rightarrow> Inl e
      | Inr (v, r') \<Rightarrow>
          (case rollDamageDice k n r' of
             Inl e \<Rightarrow> Inl e
           | Inr (vs, r'') \<Rightarrow> Inr (v # vs, r'')))"

text \<open>\<open>abilityDamage\<close>: \<open>Math.max(0, modifier)\<close> of the governing ability, if there is one.\<close>

definition abilityDamageOf :: "abilities \<Rightarrow> string option \<Rightarrow> d20_error + int" where
  "abilityDamageOf abils governing =
     (case governing of
        None \<Rightarrow> Inr 0
      | Some ability \<Rightarrow>
          (case getModifier abils ability of Inl e \<Rightarrow> Inl e | Inr m \<Rightarrow> Inr (max 0 m)))"

definition weaponEnhancement :: "game_unit \<Rightarrow> rat" where
  "weaponEnhancement attacker =
     foldl (\<lambda>bonus item.
              if item_type item = ''weapon''
              then bonus + orDefault (statModifiers item ''ATK'') 0 else bonus)
       0 (equipment attacker)"

definition focusEnhancement :: "game_unit \<Rightarrow> rat" where
  "focusEnhancement caster =
     foldl (\<lambda>bonus item.
              if item_type item = ''weapon'' \<and>
                 (stringIncludes (item_name item) ''staff'' \<or> stringIncludes (item_name item) ''tome'')
              then bonus + orDefault (statModifiers item ''MAG'') 0 else bonus)
       0 (equipment caster)"

record base_damage =
  bd_type :: string
  diceDamage :: int
  diceRolls :: "int list"
  abilityDamage :: int
  enhancementBonus :: rat
  levelBonus :: int
  totalDamage :: rat
  isCritical :: bool

text \<open>
  \<open>calculateWeaponDamage\<close>.  The result's \<open>enhancementBonus\<close> is the weapon enhancement;
  \<open>levelBonus\<close> is \<open>0\<close>, a weapon result has no such property.
\<close>

definition calculateWeaponDamage ::
  "game_unit \<Rightarrow> string \<Rightarrow> rng \<Rightarrow> bool \<Rightarrow> damage_error + (base_damage \<times> rng)" where
  "calculateWeaponDamage attacker weaponType r crit =
     (case WEAPON_DAMAGE (toUpperCase weaponType) of
        None \<Rightarrow> Inl (UnknownWeaponType weaponType)
      | Some weaponData \<Rightarrow>
     (let diceCount = (if crit then dice weaponData * 2 else dice weaponData)
      in case rollDamageDice (nat diceCount) (sides weaponData) r of
           Inl e \<Rightarrow> Inl (DiceError e)
         | Inr (rolled, r') \<Rightarrow>
     (case abilityDamageOf (hiddenAbilities attacker) (modifier weaponData) of
        Inl e \<Rightarrow> Inl (AbilityError e)
      | Inr abilityDmg \<Rightarrow>
          (let enhancement = weaponEnhancement attacker;
               total = of_int (sum_list rolled) + of_int abilityDmg + enhancement
           in Inr (\<lparr>bd_type = damage_type weaponData, diceDamage = sum_list rolled,
                     diceRolls = rolled, abilityDamage = abilityDmg,
                     enhancementBonus = enhancement, levelBonus = 0,
                     totalDamage = max 1 total, isCritical = crit\<rparr>, r')))))"

text \<open>
  \<open>calculateSpellDamage\<close>.  The result's \<open>enhancementBonus\<close> is the source's \<open>focusBonus\<close>.
\<close>

definition calculateSpellDamage ::
  "game_unit \<Rightarrow> string \<Rightarrow> rng \<Rightarrow> bool \<Rightarrow> int \<Rightarrow> damage_error + (base_damage \<times> rng)" where
  "calculateSpellDamage caster spellType r crit spellLevel =
     (case SPELL_DAMAGE (toUpperCase spellType) of
        None \<Rightarrow> Inl (UnknownSpellType spellType)
      | Some spellData \<Rightarrow>
     (let baseDice = dice spellData + spellLevel div 2;
          diceCount = (if crit then baseDice * 2 else baseDice)
      in case rollDamageDice (nat diceCount) (sides spellData) r of
           Inl e \<Rightarrow> Inl (DiceError e)
         | Inr (rolled, r') \<Rightarrow>
     (case abilityDamageOf (hiddenAbilities caster) (modifier spellData) of
        Inl e \<Rightarrow> Inl (AbilityError e)
      | Inr abilityDmg \<Rightarrow>
          (let focusBonus = focusEnhancement caster;
               lvlBonus = \<lfloor>of_int spellLevel * (3 / 2 :: rat)\<rfloor>;
               total = of_int (sum_list rolled) + of_int abilityDmg + focusBonus + of_int lvlBonus
           in Inr (\<lparr>bd_type = damage_type spellData, diceDamage = sum_list rolled,
                     diceRolls = rolled, abilityDamage = abilityDmg,
                     enhancementBonus = focusBonus, levelBonus = lvlBonus,
                     totalDamage = max 1 total, isCritical = crit\<rparr>, r')))))"


section \<open>CombatState.js: terrain and deployment\<close>

text \<open>A movement cost: a number or \<open>Infinity\<close> (impassable).\<close>

datatype move_cost = Cost rat | InfinityCost

record terrain_tile =
  tile_type :: string
  tile_height :: rat
  moveCost :: move_cost
  coverValue :: rat
  destructible :: bool
  tile_currentHP :: "rat option"

text \<open>\<open>providesCover\<close>; a missing \<open>currentHP\<close> is \<open>null\<close>, and \<open>null > 0\<close> is false.\<close>

definition providesCover :: "terrain_tile \<Rightarrow> bool" where
  "providesCover t =
     (coverValue t > 0 \<and>
      (\<not> destructible t \<or> (case tile_currentHP t of None \<Rightarrow> False | Some hp \<Rightarrow> hp > 0)))"

definition getMoveCost :: "terrain_tile \<Rightarrow> string \<Rightarrow> move_cost" where
  "getMoveCost t unitType =
     (if unitType = ''flying'' then Cost 1
      else if unitType = ''amphibious'' \<and> tile_type t = ''WATER'' then Cost 1
      else moveCost t)"

text \<open>
  The match state.  A position key \<open>`${x},${y}`\<close> is the pair \<open>(x, y)\<close>; the maps and the
  set of the source are a partial function and a set.
\<close>

record combat_state =
  phase :: string
  units :: "string \<rightharpoonup> game_unit"
  deployedUnits :: "string set"
  unitPositions :: "int \<times> int \<rightharpoonup> string"
  terrain :: "int \<times> int \<rightharpoonup> terrain_tile"
  mapWidth :: int
  mapHeight :: int

definition getUnit :: "combat_state \<Rightarrow> string \<Rightarrow> game_unit option" where
  "getUnit s unitId = units s unitId"

definition getUnitAtPosition :: "combat_state \<Rightarrow> int \<Rightarrow> int \<Rightarrow> game_unit option" where
  "getUnitAtPosition s x y =
     (case unitPositions s (x, y) of
        None \<Rightarrow> None
      | Some unitId \<Rightarrow> if unitId = [] then None else getUnit s unitId)"

definition getTerrainAt :: "combat_state \<Rightarrow> int \<Rightarrow> int \<Rightarrow> terrain_tile option" where
  "getTerrainAt s x y = terrain s (x, y)"

definition moveUnit :: "combat_state \<Rightarrow> string \<Rightarrow> int \<Rightarrow> int \<Rightarrow> bool \<times> combat_state" where
  "moveUnit s unitId x y =
     (case getUnit s unitId of
        None \<Rightarrow> (False, s)
      | Some u \<Rightarrow>
          if x < 0 \<or> x \<ge> mapWidth s \<or> y < 0 \<or> y \<ge> mapHeight s then (False, s)
          else if unitPositions s (x, y) \<noteq> None then (False, s)
          else
            (True,
             s\<lparr>units := (units s)(unitId \<mapsto> u\<lparr>position := (x, y)\<rparr>),
               unitPositions := ((unitPositions s)(position u := None))((x, y) \<mapsto> unitId)\<rparr>))"

definition deployUnit :: "combat_state \<Rightarrow> string \<Rightarrow> int \<Rightarrow> int \<Rightarrow> bool \<times> combat_state" where
  "deployUnit s unitId x y =
     (if phase s \<noteq> ''DEPLOYMENT'' then (False, s)
      else if getUnit s unitId = None \<or> unitId \<in> deployedUnits s then (False, s)
      else
        (let (moved, s') = moveUnit s unitId x y
         in if moved then (True, s'\<lparr>deployedUnits := insert unitId (deployedUnits s')\<rparr>)
            else (False, s')))"

definition isPositionPassable :: "combat_state \<Rightarrow> int \<Rightarrow> int \<Rightarrow> string \<Rightarrow> bool" where
  "isPositionPassable s x y unitType =
     (if x < 0 \<or> x \<ge> mapWidth s \<or> y < 0 \<or> y \<ge> mapHeight s then False
      else if getUnitAtPosition s x y \<noteq> None then False
      else (case getTerrainAt s x y of
              Some t \<Rightarrow> (case getMoveCost t unitType of Cost c \<Rightarrow> True | InfinityCost \<Rightarrow> False)
            | None \<Rightarrow> True))"

section \<open>HitCalculator.js: situational modifiers and the hit preview\<close>

record effect_tag =
  tag_source :: string
  tag_effect :: string
  tag_type :: string

record modifiers =
  attackerAdvantage :: bool
  attackerDisadvantage :: bool
  defenderAdvantage :: bool
  defenderDisadvantage :: bool
  coverBonus :: rat
  heightBonus :: rat
  flanking :: bool
  backstab :: bool
  effectTags :: "effect_tag list"

definition calculateDistance :: "int \<times> int \<Rightarrow> int \<times> int \<Rightarrow> int" where
  "calculateDistance pos1 pos2 =
     (let dx = \<bar>fst pos1 - fst pos2\<bar>; dy = \<bar>snd pos1 - snd pos2\<bar> in max dx dy)"

definition isRangedAttack :: "game_unit \<Rightarrow> game_unit \<Rightarrow> bool" where
  "isRangedAttack attacker defender =
     (if calculateDistance (position attacker) (position defender) > 1 then True
      else unit_class attacker \<in> set [''ARCHER'', ''MAGE''])"

definition calculatePositionalModifiers ::
  "game_unit \<Rightarrow> game_unit \<Rightarrow> combat_state \<Rightarrow> modifiers \<Rightarrow> modifiers" where
  "calculatePositionalModifiers attacker defender cs m =
     (case getTerrainAt cs (fst (position attacker)) (snd (position attacker)) of
        None \<Rightarrow> m
      | Some attackerTerrain \<Rightarrow>
     (case getTerrainAt cs (fst (position defender)) (snd (position defender)) of
        None \<Rightarrow> m
      | Some defenderTerrain \<Rightarrow>
          (let heightDiff = tile_height attackerTerrain - tile_height defenderTerrain
           in if heightDiff > 0
              then m\<lparr>attackerAdvantage := True,
                     heightBonus := heightDiff * RANGED_ATTACK_BONUS\<rparr>
              else if heightDiff < 0 then m\<lparr>attackerDisadvantage := True\<rparr>
              else m)))"

definition calculateTerrainModifiers ::
  "game_unit \<Rightarrow> game_unit \<Rightarrow> combat_state \<Rightarrow> modifiers \<Rightarrow> modifiers" where
  "calculateTerrainModifiers attacker defender cs m =
     (case getTerrainAt cs (fst (position defender)) (snd (position defender)) of
        None \<Rightarrow> m
      | Some defenderTerrain \<Rightarrow>
          (let m1 = (if providesCover defenderTerrain
                     then (let m' = m\<lparr>coverBonus := coverValue defenderTerrain\<rparr>
                           in if coverValue defenderTerrain \<ge> 1 / 2
                              then m'\<lparr>attackerDisadvantage := True\<rparr> else m')
                     else m)
           in if tile_type defenderTerrain = ''FOREST'' \<and> isRangedAttack attacker defender
              then m1\<lparr>attackerDisadvantage := True\<rparr> else m1))"

definition attackerStatusModifier :: "modifiers \<Rightarrow> status_effect \<Rightarrow> modifiers" where
  "attackerStatusModifier m effect =
     (let n = toLowerCase (effect_name effect);
          m1 = (if n = ''blessed'' \<or> n = ''inspired'' then m\<lparr>attackerAdvantage := True\<rparr>
                else if n = ''cursed'' \<or> n = ''weakened'' \<or> n = ''blinded''
                  then m\<lparr>attackerDisadvantage := True\<rparr>
                else m)
      in m1\<lparr>effectTags := effectTags m1 @
             [\<lparr>tag_source = ''attacker'', tag_effect = effect_name effect,
               tag_type = effect_type effect\<rparr>]\<rparr>)"

definition defenderStatusModifier :: "modifiers \<Rightarrow> status_effect \<Rightarrow> modifiers" where
  "defenderStatusModifier m effect =
     (let n = toLowerCase (effect_name effect);
          m1 = (if n = ''marked'' \<or> n = ''exposed'' then m\<lparr>attackerAdvantage := True\<rparr>
                else if n = ''dodging'' \<or> n = ''shielded''
                  then m\<lparr>attackerDisadvantage := True\<rparr>
                else if n = ''stunned'' \<or> n = ''paralyzed''
                  then m\<lparr>attackerAdvantage := True\<rparr>
                else m)
      in m1\<lparr>effectTags := effectTags m1 @
             [\<lparr>tag_source = ''defender'', tag_effect = effect_name effect,
               tag_type = effect_type effect\<rparr>]\<rparr>)"

definition calculateStatusModifiers :: "game_unit \<Rightarrow> game_unit \<Rightarrow> modifiers \<Rightarrow> modifiers" where
  "calculateStatusModifiers attacker defender m =
     foldl defenderStatusModifier
       (foldl attackerStatusModifier m (statusEffects attacker))
       (statusEffects defender)"

text \<open>
  \<open>calculateFacingModifiers\<close>.  The attack angle in degrees is the result of
  \<open>calculateAttackAngle\<close>, which the source computes with \<open>Math.atan2\<close> in floating point;
  here it is an input.
\<close>

definition calculateFacingModifiers :: "rat \<Rightarrow> modifiers \<Rightarrow> modifiers" where
  "calculateFacingModifiers angle m =
     (let m1 = (if angle \<ge> 135 \<and> angle \<le> 225
                then m\<lparr>backstab := True, attackerAdvantage := True\<rparr> else m)
      in if (angle \<ge> 45 \<and> angle \<le> 135) \<or> (angle \<ge> 225 \<and> angle \<le> 315)
         then m1\<lparr>flanking := True\<rparr> else m1)"

text \<open>\<open>SituationalModifiers.calculate\<close>\<close>

definition calculate :: "game_unit \<Rightarrow> game_unit \<Rightarrow> combat_state \<Rightarrow> rat \<Rightarrow> modifiers" where
  "calculate attacker defender cs angle =
     (let m = \<lparr>attackerAdvantage = False, attackerDisadvantage = False,
               defenderAdvantage = False, defenderDisadvantage = False,
               coverBonus = 0, heightBonus = 0, flanking = False, backstab = False,
               effectTags = []\<rparr>;
          m1 = calculatePositionalModifiers attacker defender cs m;
          m2 = calculateTerrainModifiers attacker defender cs m1;
          m3 = calculateStatusModifiers attacker defender m2
      in calculateFacingModifiers angle m3)"

text \<open>The net roll type: advantage and disadvantage together cancel to a normal roll.\<close>

definition resolveRollType :: "modifiers \<Rightarrow> string" where
  "resolveRollType situ =
     (if attackerAdvantage situ \<and> \<not> attackerDisadvantage situ then ''advantage''
      else if attackerDisadvantage situ \<and> \<not> attackerAdvantage situ then ''disadvantage''
      else ''normal'')"

record hit_probabilities =
  normal :: rat
  effective :: rat
  requiredRoll :: rat

definition calculateHitProbabilities :: "rat \<Rightarrow> rat \<Rightarrow> string \<Rightarrow> hit_probabilities" where
  "calculateHitProbabilities bonus dv rollType =
     (let required = max 1 (dv - bonus);
          maxRoll = of_int D20_MAX;
          normalChance = max 0 ((maxRoll - required + 1) / maxRoll);
          effectiveChance =
            (if rollType = ''advantage''
               then (let failChance = 1 - normalChance in 1 - failChance * failChance)
             else if rollType = ''disadvantage'' then normalChance * normalChance
             else normalChance)
      in \<lparr>normal = normalChance, effective = effectiveChance, requiredRoll = required\<rparr>)"

definition calculateCriticalChances :: "combatant \<Rightarrow> string \<Rightarrow> d20_error + rat" where
  "calculateCriticalChances attackerData rollType =
     (case calculateThreatRange (d_abilities attackerData) (d_visibleStats attackerData)
             (d_equipment attackerData) of
        Inl e \<Rightarrow> Inl e
      | Inr threat \<Rightarrow>
          (let critRolls = of_int D20_MAX - minThreat threat + 1;
               normalCritChance = critRolls / of_int D20_MAX
           in Inr (if rollType = ''advantage''
                     then (let nonCritChance = 1 - normalCritChance
                           in 1 - nonCritChance * nonCritChance)
                   else if rollType = ''disadvantage'' then normalCritChance * normalCritChance
                   else normalCritChance)))"

record hit_options =
  isRanged :: bool
  isSpell :: bool
  primaryAbility :: "string option"

record hit_chance =
  baseHitChance :: rat
  effectiveHitChance :: rat
  criticalChance :: rat
  rollType :: string
  hc_attackBonus :: rat
  hc_defenseValue :: rat
  hc_requiredRoll :: rat
  situationalModifiers :: modifiers

datatype hit_error = HitChanceFailed d20_error

text \<open>
  \<open>calculateHitChance\<close>, the attack preview.  The situational object handed to the
  defense calculator carries \<open>cover\<close> and \<open>height\<close> (physical) or \<open>buffs\<close> (spell) and
  the spread numeric modifiers; its boolean properties are never read as bonuses.
\<close>

definition calculateHitChance ::
  "game_unit \<Rightarrow> game_unit \<Rightarrow> combat_state \<Rightarrow> hit_options \<Rightarrow> rat \<Rightarrow> hit_error + hit_chance" where
  "calculateHitChance attacker defender cs options angle =
     (let attackerData = getHiddenData attacker;
          defenderData = getHiddenData defender;
          situ = calculate attacker defender cs angle;
          rt = resolveRollType situ;
          ranged = (isRanged options \<or> isRangedAttack attacker defender);
          spell = (isSpell options \<or> unit_class attacker = ''MAGE''
                   \<or> unit_class attacker = ''CLERIC'');
          spread = [''coverBonus'' \<mapsto> coverBonus situ, ''heightBonus'' \<mapsto> heightBonus situ];
          bonusAndDV =
            (if spell then
               (case calculateSpellAttack (d_abilities attackerData) (d_level attackerData)
                       (case primaryAbility options of None \<Rightarrow> ''INT''
                        | Some a \<Rightarrow> if a = [] then ''INT'' else a)
                       (d_equipment attackerData) of
                  Inl e \<Rightarrow> Inl e
                | Inr b \<Rightarrow>
                    (case calculateMagicalDV (d_abilities defenderData)
                            (d_equipment defenderData)
                            (spread(''buffs'' \<mapsto> coverBonus situ * (1 / 2))) of
                       Inl e \<Rightarrow> Inl e
                     | Inr dv \<Rightarrow> Inr (b, dv)))
             else
               (case calculatePhysicalAttack (d_abilities attackerData) (d_level attackerData)
                       ranged (d_equipment attackerData) of
                  Inl e \<Rightarrow> Inl e
                | Inr b \<Rightarrow>
                    (case calculatePhysicalDV (d_abilities defenderData)
                            (d_equipment defenderData)
                            (spread(''cover'' \<mapsto> coverBonus situ * 5,
                                    ''height'' \<mapsto> heightBonus situ * (- 2))) of
                       Inl e \<Rightarrow> Inl e
                     | Inr dv \<Rightarrow> Inr (b, dv))))
      in case bonusAndDV of
           Inl e \<Rightarrow> Inl (HitChanceFailed e)
         | Inr (b, dv) \<Rightarrow>
             (let hitChances = calculateHitProbabilities b dv rt
              in case calculateCriticalChances attackerData rt of
                   Inl e \<Rightarrow> Inl (HitChanceFailed e)
                 | Inr crit \<Rightarrow>
                     Inr \<lparr>baseHitChance = normal hitChances,
                          effectiveHitChance = effective hitChances,
                          criticalChance = crit, rollType = rt,
                          hc_attackBonus = b, hc_defenseValue = dv,
                          hc_requiredRoll = max 1 (dv - b),
                          situationalModifiers = situ\<rparr>))"


section \<open>ActionPointSystem.js\<close>

record action =
  action_type :: string
  action_unitId :: string
  abilityId :: "string option"
  baseCost :: rat
  modifiedCost :: rat

text \<open>A standing per-unit modifier stored by \<open>addAPModifier\<close>.\<close>

record ap_modifier =
  mod_type :: string
  mod_actionType :: string
  mod_value :: rat

text \<open>The events that the system appends to its debugging log (without timestamps).\<close>

datatype log_event =
    CalculateCost string string rat rat
  | AffordCheck string string bool rat rat rat rat
  | SpendFailed string string rat rat
  | SpendSuccess string string rat rat

record ap_system =
  apModifiers :: "string \<rightharpoonup> ap_modifier list"
  logActions :: bool
  actionLog :: "log_event list"

definition logEvent :: "ap_system \<Rightarrow> log_event \<Rightarrow> ap_system" where
  "logEvent sys ev = (if logActions sys then sys\<lparr>actionLog := actionLog sys @ [ev]\<rparr> else sys)"

definition applyUnitModifier :: "action \<Rightarrow> rat \<Rightarrow> ap_modifier \<Rightarrow> rat" where
  "applyUnitModifier act cost m =
     (if mod_actionType m = action_type act \<or> mod_actionType m = ''ALL'' then
        (if mod_type m = ''flat'' then cost + mod_value m
         else if mod_type m = ''percentage'' then of_int \<lceil>cost * (1 + mod_value m)\<rceil>
         else cost)
      else cost)"

text \<open>One round of the loop of \<open>applyStatusEffectCostModifiers\<close>.\<close>

definition statusEffectCost :: "action \<Rightarrow> rat \<Rightarrow> status_effect \<Rightarrow> rat" where
  "statusEffectCost act cost effect =
     (let c1 =
        (case apCostModifier (effects effect) of
           None \<Rightarrow> cost
         | Some table \<Rightarrow>
             (case (case table (action_type act) of Some m \<Rightarrow> Some m | None \<Rightarrow> table ''ALL'') of
                None \<Rightarrow> cost
              | Some m \<Rightarrow>
                  if m_type m = ''flat'' then cost + m_value m * intensity effect
                  else if m_type m = ''percentage''
                    then of_int \<lceil>cost * (1 + m_value m * intensity effect)\<rceil>
                  else cost));
          n = toLowerCase (effect_name effect)
      in if n = ''haste'' \<or> n = ''quickened'' then max 0 (c1 - 1)
         else if n = ''slow'' \<or> n = ''exhausted'' then c1 + 1
         else if n = ''encumbered'' then (if action_type act = ''MOVE'' then c1 + 1 else c1)
         else if n = ''focused'' then (if action_type act = ''ABILITY'' then max 0 (c1 - 1) else c1)
         else c1)"

definition applyStatusEffectCostModifiers :: "game_unit \<Rightarrow> action \<Rightarrow> rat \<Rightarrow> rat" where
  "applyStatusEffectCostModifiers u act cost = foldl (statusEffectCost act) cost (statusEffects u)"

definition specialEffectCost :: "action \<Rightarrow> rat \<Rightarrow> special_effect \<Rightarrow> rat" where
  "specialEffectCost act cost effect =
     (let applies = (se_actionType effect = Some (action_type act)
                     \<or> se_actionType effect = Some ''ALL'');
          c1 = (if se_type effect = ''ap_cost_reduction'' \<and> applies
                then max 0 (cost - orDefault (se_value effect) 1) else cost)
      in if se_type effect = ''ap_cost_increase'' \<and> applies
         then c1 + orDefault (se_value effect) 1 else c1)"

definition itemCost :: "action \<Rightarrow> rat \<Rightarrow> equipment_item \<Rightarrow> rat" where
  "itemCost act cost item =
     (let c1 = foldl (specialEffectCost act) cost (specialEffects item)
      in if item_type item = ''armor'' \<and> stringIncludes (toLowerCase (item_name item)) ''heavy''
            \<and> action_type act = ''MOVE''
         then c1 + 1 else c1)"

definition applyEquipmentCostModifiers :: "game_unit \<Rightarrow> action \<Rightarrow> rat \<Rightarrow> rat" where
  "applyEquipmentCostModifiers u act cost = foldl (itemCost act) cost (equipment u)"

definition applyAbilityCostModifiers :: "game_unit \<Rightarrow> action \<Rightarrow> rat \<Rightarrow> rat" where
  "applyAbilityCostModifiers u act cost =
     (if unit_class u = ''ARCHER'' then
        (if action_type act = ''ATTACK'' \<and> \<not> hasActedThisTurn u then max 1 (cost - 1) else cost)
      else if unit_class u = ''ROGUE'' then
        (case abilityId act of
           None \<Rightarrow> cost
         | Some a \<Rightarrow>
             if a \<noteq> [] \<and> stringIncludes (toLowerCase a) ''stealth''
             then max 1 (cost - 1) else cost)
      else if unit_class u = ''MAGE'' then
        (if action_type act = ''ABILITY''
         then (let intMod = \<lfloor>vINT (getCurrentStats u) / 10\<rfloor> in max 1 (cost - of_int intMod))
         else cost)
      else cost)"

text \<open>The cost computed by \<open>calculateActionCost\<close>, before it is logged.\<close>

definition actionCost :: "ap_system \<Rightarrow> game_unit \<Rightarrow> action \<Rightarrow> rat" where
  "actionCost sys u act =
     (let standing = (case apModifiers sys (unit_id u) of None \<Rightarrow> [] | Some ms \<Rightarrow> ms);
          c1 = foldl (applyUnitModifier act) (baseCost act) standing;
          c2 = applyStatusEffectCostModifiers u act c1;
          c3 = applyEquipmentCostModifiers u act c2;
          c4 = (case abilityId act of
                  None \<Rightarrow> c3
                | Some a \<Rightarrow> if a = [] then c3 else applyAbilityCostModifiers u act c3)
      in max 0 c4)"

definition calculateActionCost :: "ap_system \<Rightarrow> game_unit \<Rightarrow> action \<Rightarrow> rat \<times> ap_system" where
  "calculateActionCost sys u act =
     (let cost = actionCost sys u act
      in (cost, logEvent sys (CalculateCost (unit_id u) (action_type act) (baseCost act) cost)))"

record afford_result =
  canAfford :: bool
  cost :: rat
  available :: rat
  remaining :: rat
  deficit :: rat

text \<open>
  The whole of what the two operations can touch: the system (its log), the unit and the
  action object.
\<close>

record ap_world =
  w_system :: ap_system
  w_unit :: game_unit
  w_action :: action

definition canAffordAction :: "ap_world \<Rightarrow> afford_result \<times> ap_world" where
  "canAffordAction w =
     (let (c, sys1) = calculateActionCost (w_system w) (w_unit w) (w_action w);
          avail = currentAP (w_unit w);
          ok = (avail \<ge> c);
          res = \<lparr>canAfford = ok, cost = c, available = avail,
                 remaining = (if ok then avail - c else avail),
                 deficit = (if ok then 0 else c - avail)\<rparr>;
          sys2 = logEvent sys1
                   (AffordCheck (unit_id (w_unit w)) (action_type (w_action w)) ok c avail
                      (remaining res) (deficit res))
      in (res, w\<lparr>w_system := sys2\<rparr>))"

definition spendAP :: "ap_world \<Rightarrow> bool \<times> ap_world" where
  "spendAP w =
     (let (affordCheck, w1) = canAffordAction w
      in if \<not> canAfford affordCheck then
           (False,
            w1\<lparr>w_system := logEvent (w_system w1)
                 (SpendFailed (unit_id (w_unit w1)) (action_type (w_action w1))
                    (cost affordCheck) (available affordCheck))\<rparr>)
         else
           (let (success, u') = unitSpendAP (w_unit w1) (cost affordCheck)
            in if success then
                 (True,
                  w1\<lparr>w_unit := u',
                     w_action := (w_action w1)\<lparr>modifiedCost := cost affordCheck\<rparr>,
                     w_system := logEvent (w_system w1)
                       (SpendSuccess (unit_id u') (action_type (w_action w1))
                          (cost affordCheck) (currentAP u'))\<rparr>)
               else (False, w1\<lparr>w_unit := u'\<rparr>)))"

section \<open>InitiativeSystem.js\<close>

record initiative_modifier =
  im_source :: string
  im_value :: rat
  im_type :: string

record initiative_entry =
  unitId :: string
  unitName :: string
  playerId :: string
  baseInitiative :: rat
  initiativeRoll :: int
  totalInitiative :: rat
  tiebreaker :: rat
  entry_modifiers :: "initiative_modifier list"
  entry_isIncapacitated :: bool
  turnIndex :: nat
























section \<open>Sample data for the scenarios\<close>

text \<open>The base values of \<open>VISIBLE_STATS\<close> and of the ability scores.\<close>

definition baseVisibleStats :: stats where
  "baseVisibleStats =
     \<lparr>vHP = 100, vMP = 50, vATK = 25, vDEF = 15, vMAG = 20, vRES = 10, vAGL = 15,
      vINT = 12, vMOV = 4, vRNG = 1, vLCK = 8\<rparr>"

definition baseAbilities :: abilities where
  "baseAbilities = \<lparr>aSTR = 10, aDEX = 10, aCON = 10, aINT = 10, aWIS = 10, aCHA = 10\<rparr>"

definition noEffects :: effect_data where
  "noEffects =
     \<lparr>statMods = Map.empty, resistance = None, damageBonus = None, damageMultiplier = None,
      damageVulnerability = None, damageReduction = None, apCostModifier = None,
      apRestoration = None, initiativeBonus = None\<rparr>"

text \<open>A level 1 swordsman without equipment or status effects, at full health and AP.\<close>

definition recruit :: "string \<Rightarrow> game_unit" where
  "recruit name =
     \<lparr>unit_id = name, unit_name = name, unit_class = ''SWORDSMAN'', level = 1,
      hiddenAbilities = baseAbilities, equipment = [], baseStats = baseVisibleStats,
      currentHP = Finite 100, currentAP = MAX_PER_TURN, statusEffects = [],
      isIncapacitated = False, position = (0, 0), facing = ''north'',
      hasActedThisTurn = False\<rparr>"

text \<open>A status effect that only has a name, such as the \<open>slow\<close> debuff.\<close>

definition namedEffect :: "string \<Rightarrow> string \<Rightarrow> status_effect" where
  "namedEffect name kind =
     \<lparr>effect_name = name, effect_type = kind, duration = 2, intensity = 1,
      effects = noEffects\<rparr>"

text \<open>A ruin tile with the given cover value, destructible or not, with its remaining HP.\<close>

definition ruinTile :: "rat \<Rightarrow> bool \<Rightarrow> rat option \<Rightarrow> terrain_tile" where
  "ruinTile cover destr hp =
     \<lparr>tile_type = ''RUINS'', tile_height = 0, moveCost = Cost 2, coverValue = cover,
      destructible = destr, tile_currentHP = hp\<rparr>"

text \<open>
  A duel on the standard map: the defender \<open>d\<close> stands on the given tile at \<open>(0, 0)\<close>, the
  attacker \<open>a\<close> next to it at \<open>(1, 0)\<close> on open ground.
\<close>

definition duelAttacker :: game_unit where
  "duelAttacker = (recruit ''a'')\<lparr>position := (1, 0)\<rparr>"

definition duelDefender :: game_unit where
  "duelDefender = recruit ''d''"

definition duelState :: "terrain_tile \<Rightarrow> combat_state" where
  "duelState tile =
     \<lparr>phase = ''COMBAT'',
      units = [''a'' \<mapsto> duelAttacker, ''d'' \<mapsto> duelDefender],
      deployedUnits = {''a'', ''d''},
      unitPositions = [(1, 0) \<mapsto> ''a'', (0, 0) \<mapsto> ''d''],
      terrain = [(0, 0) \<mapsto> tile],
      mapWidth = 24, mapHeight = 24\<rparr>"

definition meleePreview :: hit_options where
  "meleePreview = \<lparr>isRanged = False, isSpell = False, primaryAbility = None\<rparr>"

text \<open>
  The AP scenario: a unit at its start-of-turn pool under a \<open>slow\<close> debuff, a system without
  standing modifiers, and a move of base cost 1.
\<close>

definition moveAction :: action where
  "moveAction =
     \<lparr>action_type = ''MOVE'', action_unitId = ''u'', abilityId = None, baseCost = 1,
      modifiedCost = 1\<rparr>"

definition plainSystem :: ap_system where
  "plainSystem = \<lparr>apModifiers = Map.empty, logActions = False, actionLog = []\<rparr>"

definition slowedWorld :: ap_world where
  "slowedWorld =
     \<lparr>w_system = plainSystem,
      w_unit = (recruit ''u'')\<lparr>statusEffects := [namedEffect ''slow'' ''debuff'']\<rparr>,
      w_action = moveAction\<rparr>"

text \<open>
  A deployment phase with one unit still at its default position and a water tile
  (\<open>moveCost: Infinity\<close>) at \<open>(5, 5)\<close>.
\<close>

definition waterTile :: terrain_tile where
  "waterTile =
     \<lparr>tile_type = ''WATER'', tile_height = 0, moveCost = InfinityCost, coverValue = 0,
      destructible = False, tile_currentHP = None\<rparr>"

definition lakeState :: combat_state where
  "lakeState =
     \<lparr>phase = ''DEPLOYMENT'',
      units = [''u1'' \<mapsto> recruit ''u1''],
      deployedUnits = {},
      unitPositions = [(0, 0) \<mapsto> ''u1''],
      terrain = [(5, 5) \<mapsto> waterTile],
      mapWidth = 24, mapHeight = 24\<rparr>"

text \<open>
  A level 1 unit with INT 18 whose visible LCK of 8 is brought down to 0 by a curse, a status
  effect with the stat modification \<open>LCK: -10\<close>.
\<close>

definition cursedSage :: game_unit where
  "cursedSage =
     (recruit ''sage'')
       \<lparr>hiddenAbilities := baseAbilities\<lparr>aINT := 18\<rparr>,
        statusEffects :=
          [\<lparr>effect_name = ''curse'', effect_type = ''debuff'', duration = 2, intensity = 1,
            effects = noEffects\<lparr>statMods := [''LCK'' \<mapsto> - 10]\<rparr>\<rparr>]\<rparr>"






section \<open>Properties of the random source\<close>

lemma lcg_bound: "lcg s < 2 ^ 32"
  by (simp add: lcg_def)

lemma lcg_exact: "s < 2 ^ 32 \<Longrightarrow> 1664525 * s + 1013904223 < (2::nat) ^ 53"
  by simp

lemma normalizeSeed_bound: "normalizeSeed s < 2 ^ 32"
  by (cases s) simp_all

lemma randoms_reset_indep:
  "state r1 = state r2 \<Longrightarrow> fst (randoms n r1) = fst (randoms n r2)"
proof (induction n arbitrary: r1 r2)
  case 0
  then show ?case by simp
next
  case (Suc n)
  have "state (snd (random r1)) = state (snd (random r2))"
    using Suc.prems by (simp add: random_def nextRaw_def Let_def)
  from Suc.IH[OF this] Suc.prems show ?case
    by (simp add: random_def nextRaw_def Let_def split_def)
qed

lemma randoms_fst:
  "fst (randoms n r) = map (\<lambda>k. of_nat ((lcg ^^ Suc k) (state r)) / 2 ^ 32) [0..<n]"
proof (induction n arbitrary: r)
  case 0
  then show ?case by simp
next
  case (Suc n)
  have st: "state (snd (random r)) = lcg (state r)"
    by (simp add: random_def nextRaw_def Let_def)
  have hd: "fst (random r) = of_nat (lcg (state r)) / 2 ^ 32"
    by (simp add: random_def nextRaw_def Let_def)
  have "fst (randoms (Suc n) r) = fst (random r) # fst (randoms n (snd (random r)))"
    by (simp add: split_def Let_def)
  also have "\<dots> = of_nat (lcg (state r)) / 2 ^ 32 #
      map (\<lambda>k. of_nat ((lcg ^^ Suc k) (lcg (state r))) / 2 ^ 32) [0..<n]"
    by (simp only: hd Suc.IH st)
  also have "\<dots> = map (\<lambda>k. of_nat ((lcg ^^ Suc k) (state r)) / 2 ^ 32) [0..<Suc n]"
    by (simp add: upt_rec[of 0 "Suc n"] map_Suc_upt[symmetric] funpow_swap1 del: upt_Suc)
  finally show ?case .
qed

lemma randoms_snd:
  "snd (randoms n r) = r\<lparr>state := (lcg ^^ n) (state r), callCount := callCount r + n\<rparr>"
proof (induction n arbitrary: r)
  case 0
  then show ?case by simp
next
  case (Suc n)
  have "snd (randoms (Suc n) r) = snd (randoms n (snd (random r)))"
    by (simp add: split_def Let_def)
  then show ?case
    by (simp add: Suc.IH random_def nextRaw_def Let_def funpow_swap1)
qed

lemma rollsD20_eq:
  "rollsD20 n r =
     Inr (map (\<lambda>k. 1 + int ((lcg ^^ Suc k) (state r)) mod 20) [0..<n],
          r\<lparr>state := (lcg ^^ n) (state r), callCount := callCount r + n\<rparr>)"
proof (induction n arbitrary: r)
  case 0
  then show ?case by simp
next
  case (Suc n)
  have one: "rollD20 r = Inr (1 + int (lcg (state r)) mod 20,
                r\<lparr>state := lcg (state r), callCount := callCount r + 1\<rparr>)"
    by (simp add: rollD20_def randInt_def nextRaw_def D20_MIN_def D20_MAX_def Let_def)
  show ?case
    by (simp add: one Suc.IH upt_rec[of 0 "Suc n"] map_Suc_upt[symmetric] funpow_swap1 del: upt_Suc)
qed

lemma random_range: "0 \<le> fst (random r) \<and> fst (random r) < 1"
proof -
  have "lcg (state r) < 2 ^ 32" by (rule lcg_bound)
  then have "(of_nat (lcg (state r)) :: rat) < of_nat (2 ^ 32)"
    by (simp only: of_nat_less_iff)
  then show ?thesis
    by (simp add: random_def nextRaw_def Let_def)
qed





lemma reset_state: "state (reset r) = normalizeSeed (originalSeed r)"
  by (simp add: reset_def)

lemma validateReproducibility_eq: "validateReproducibility n r = (True, r)"
proof -
  have a: "fst (randoms n (reset (snd (randoms n (reset r))))) = fst (randoms n (reset r))"
    by (simp add: randoms_fst reset_state randoms_snd reset_def)
  have b: "snd (randoms n (reset (snd (randoms n (reset r)))))
             \<lparr>originalSeed := originalSeed r, state := state r, callCount := callCount r\<rparr> = r"
    by (simp add: randoms_snd reset_def)
  show ?thesis
    using a b by (simp add: validateReproducibility_def split_def Let_def)
qed

text \<open>
  Claim C1.  For every seed the random source is reproducible: any generation run that
  calls \<open>reset()\<close> and then draws \<open>n\<close> values with \<open>random()\<close> or with \<open>rollD20()\<close>
  produces the same sequence as any other such run on a source whose seed normalizes to the
  same value, whatever happened to either source before the reset.  The \<open>k\<close>-th draw is
  the \<open>(k+1)\<close>-fold linear congruential step of the normalized seed, divided by \<open>2^32\<close>
  for \<open>random()\<close> and reduced to \<open>1..20\<close> for \<open>rollD20()\<close>; every \<open>random()\<close> value lies
  in \<open>[0,1)\<close>; and the self-check \<open>validateReproducibility\<close> returns true and leaves the
  source as it found it.
\<close>

theorem rng_reproducible:
  "(normalizeSeed (originalSeed r') = normalizeSeed (originalSeed r) \<longrightarrow>
      fst (randoms n (reset r')) = fst (randoms n (reset r)) \<and>
      map_sum id fst (rollsD20 n (reset r')) = map_sum id fst (rollsD20 n (reset r)))
   \<and> fst (randoms n (reset r)) =
       map (\<lambda>k. of_nat ((lcg ^^ Suc k) (normalizeSeed (originalSeed r))) / 2 ^ 32) [0..<n]
   \<and> map_sum id fst (rollsD20 n (reset r)) =
       Inr (map (\<lambda>k. 1 + int ((lcg ^^ Suc k) (normalizeSeed (originalSeed r))) mod 20) [0..<n])
   \<and> (\<forall>v \<in> set (fst (randoms n (reset r))). 0 \<le> v \<and> v < 1)
   \<and> validateReproducibility n r = (True, r)"
proof -
  have range: "\<forall>v \<in> set (fst (randoms n (reset r))). 0 \<le> v \<and> v < 1"
  proof
    fix v assume "v \<in> set (fst (randoms n (reset r)))"
    then obtain k where v: "v = of_nat ((lcg ^^ Suc k) (state (reset r))) / 2 ^ 32"
      by (auto simp: randoms_fst simp del: funpow.simps)
    have "(lcg ^^ Suc k) (state (reset r)) < 2 ^ 32"
      using lcg_bound[of "(lcg ^^ k) (state (reset r))"] by simp
    then have "(of_nat ((lcg ^^ Suc k) (state (reset r))) :: rat) < of_nat (2 ^ 32)"
      by (simp only: of_nat_less_iff)
    then show "0 \<le> v \<and> v < 1"
      by (simp add: v del: funpow.simps)
  qed
  show ?thesis
    using range
    by (simp add: randoms_fst rollsD20_eq reset_state validateReproducibility_eq
          del: funpow.simps)
qed

text \<open>
  The scenario of the spec: seed 12345, two d20 rolls after a reset, on a fresh source and
  on one that has already been used.
\<close>

theorem rng_reproducible_witness:
  "fst (randoms 2 (reset (snd (randoms 5 (DeterministicRNG (Finite 12345))))))
     = fst (randoms 2 (reset (DeterministicRNG (Finite 12345))))
   \<and> fst (randoms 2 (reset (DeterministicRNG (Finite 12345))))
     = [87628868 / 2 ^ 32, 71072467 / 2 ^ 32]
   \<and> map_sum id fst (rollsD20 2 (reset (DeterministicRNG (Finite 12345)))) = Inr [9, 8]
   \<and> map_sum id fst (rollsD20 2 (reset (snd (randoms 5 (DeterministicRNG (Finite 12345))))))
     = Inr [9, 8]
   \<and> (0::rat) \<le> 87628868 / 2 ^ 32 \<and> (87628868::rat) / 2 ^ 32 < 1"
proof -
  have seed: "normalizeSeed (originalSeed (snd (randoms 5 (DeterministicRNG (Finite 12345)))))
                = normalizeSeed (originalSeed (DeterministicRNG (Finite 12345)))"
    by (simp add: randoms_snd)
  have n: "normalizeSeed (originalSeed (DeterministicRNG (Finite 12345))) = 12345"
    by (simp add: DeterministicRNG_def)
  have l1: "lcg 12345 = 87628868" by (simp add: lcg_def)
  have l2: "lcg 87628868 = 71072467" by (simp add: lcg_def)
  have u: "[0..<2] = [0, 1]" by (simp add: upt_rec)
  show ?thesis
    using rng_reproducible[of "snd (randoms 5 (DeterministicRNG (Finite 12345)))"
            "DeterministicRNG (Finite 12345)" 2] seed
    by (simp add: n l1 l2 u)
qed

lemma DeterministicRNG_state: "state (DeterministicRNG s) = normalizeSeed s"
  by (simp add: DeterministicRNG_def)

lemma normalizeSeed_negate_int:
  "normalizeSeed (negate (Finite (of_int i))) = normalizeSeed (Finite (of_int i))"
proof -
  have "\<lfloor>- (of_int i :: rat)\<rfloor> = - i"
    by (metis floor_of_int of_int_minus)
  then show ?thesis by simp
qed

text \<open>
  Claim C10, amended.  Two sources constructed with seeds that normalize to the same value
  (floor, absolute value, truncation to 32 bits) produce identical draw sequences, so
  distinct seeds can collapse to one stream.  For an integer seed \<open>i\<close> the seeds \<open>i\<close> and
  \<open>-i\<close> collapse.  (For a seed with a fractional part they need not: the floor is taken
  before the absolute value.)
\<close>

theorem seed_collapse:
  "(normalizeSeed s = normalizeSeed s' \<longrightarrow>
      fst (randoms n (DeterministicRNG s)) = fst (randoms n (DeterministicRNG s')) \<and>
      map_sum id fst (rollsD20 n (DeterministicRNG s))
        = map_sum id fst (rollsD20 n (DeterministicRNG s')))
   \<and> normalizeSeed (negate (Finite (of_int i))) = normalizeSeed (Finite (of_int i))
   \<and> fst (randoms n (DeterministicRNG (negate (Finite (of_int i)))))
       = fst (randoms n (DeterministicRNG (Finite (of_int i))))
   \<and> map_sum id fst (rollsD20 n (DeterministicRNG (negate (Finite (of_int i)))))
       = map_sum id fst (rollsD20 n (DeterministicRNG (Finite (of_int i))))"
proof -
  have gen: "\<And>a b. normalizeSeed a = normalizeSeed b \<Longrightarrow>
      fst (randoms n (DeterministicRNG a)) = fst (randoms n (DeterministicRNG b)) \<and>
      map_sum id fst (rollsD20 n (DeterministicRNG a))
        = map_sum id fst (rollsD20 n (DeterministicRNG b))"
    by (simp add: randoms_fst rollsD20_eq DeterministicRNG_state del: funpow.simps)
  show ?thesis
    using gen[of s s'] gen[OF normalizeSeed_negate_int[of i]] normalizeSeed_negate_int[of i]
    by blast
qed

theorem seed_collapse_witness:
  "Finite 12345 \<noteq> Finite (- 12345)
   \<and> normalizeSeed (Finite 12345) = normalizeSeed (Finite (- 12345))
   \<and> fst (randoms 2 (DeterministicRNG (Finite 12345)))
       = fst (randoms 2 (DeterministicRNG (Finite (- 12345))))
   \<and> map_sum id fst (rollsD20 2 (DeterministicRNG (Finite 12345)))
       = map_sum id fst (rollsD20 2 (DeterministicRNG (Finite (- 12345))))
   \<and> normalizeSeed (Finite (2 ^ 32 + 7)) = normalizeSeed (Finite 7)"
proof -
  have a: "normalizeSeed (Finite 12345) = normalizeSeed (Finite (- 12345))" by simp
  have b: "normalizeSeed (Finite (2 ^ 32 + 7)) = normalizeSeed (Finite 7)" by simp
  show ?thesis
    using seed_collapse[of "Finite 12345" "Finite (- 12345)" 2 0] a b by simp
qed

text \<open>
  Claim C10 as stated fails for the seeds \<open>1.5\<close> and \<open>-1.5\<close>: they normalize to \<open>1\<close> and
  \<open>2\<close>, and the first draws differ.
\<close>

theorem seed_sign_counterexample:
  "fst (random (DeterministicRNG (negate (Finite (3 / 2)))))
     \<noteq> fst (random (DeterministicRNG (Finite (3 / 2))))"
proof -
  have f1: "\<lfloor>3 / 2 :: rat\<rfloor> = 1" by (simp add: floor_eq_iff)
  have f2: "\<lfloor>- (3 / 2) :: rat\<rfloor> = - 2" by (simp add: floor_eq_iff)
  have a: "normalizeSeed (Finite (3 / 2)) = 1" by (simp add: f1)
  have b: "normalizeSeed (negate (Finite (3 / 2))) = 2" by (simp add: f2)
  show ?thesis
    by (simp add: random_def nextRaw_def DeterministicRNG_def a b lcg_def Let_def
          del: normalizeSeed.simps negate.simps)
qed

section \<open>Properties of the hidden rules engine\<close>

lemma toUpperCase_names:
  "toUpperCase ''STR'' = ''STR''" "toUpperCase ''DEX'' = ''DEX''"
  "toUpperCase ''CON'' = ''CON''" "toUpperCase ''INT'' = ''INT''"
  "toUpperCase ''WIS'' = ''WIS''" "toUpperCase ''CHA'' = ''CHA''"
  by (simp_all add: toUpperCase_def upperChar_def)

lemma getModifier_names:
  "getModifier a ''STR'' = Inr (calculateModifier (of_int (aSTR a)))"
  "getModifier a ''DEX'' = Inr (calculateModifier (of_int (aDEX a)))"
  "getModifier a ''CON'' = Inr (calculateModifier (of_int (aCON a)))"
  "getModifier a ''INT'' = Inr (calculateModifier (of_int (aINT a)))"
  "getModifier a ''WIS'' = Inr (calculateModifier (of_int (aWIS a)))"
  "getModifier a ''CHA'' = Inr (calculateModifier (of_int (aCHA a)))"
  by (simp_all add: getModifier_def toUpperCase_names getScore_def)

lemma calculatePhysicalAttack_eq:
  "calculatePhysicalAttack a lv rg eq =
     Inr (of_int (calculateProficiency lv)
          + of_int (calculateModifier (of_int (if rg then aDEX a else aSTR a)))
          + orDefault (eq ''weapon'') 0)"
  by (simp add: calculatePhysicalAttack_def getModifier_names Let_def)

lemma calculatePhysicalDV_eq:
  "calculatePhysicalDV a eq situ =
     Inr (10 + orDefault (eq ''armor'') 0 + of_int (calculateModifier (of_int (aDEX a)))
          + orDefault (situ ''cover'') 0 + orDefault (situ ''height'') 0
          + orDefault (situ ''buffs'') 0)"
  by (simp add: calculatePhysicalDV_def getModifier_names Let_def BASE_DEFENSE_VALUE_def)

lemma calculateThreatRange_eq:
  "calculateThreatRange a vs eq =
     (let ext = min (max 0 (of_int (calculateModifier (of_int (aINT a)))
                            + of_int (calculateModifier (orDefault (Some (vLCK vs)) 8))
                            + orDefault (eq ''criticalModifier'') 0)) 2
      in Inr \<lparr>minThreat = 20 - ext, maxThreat = 20, extension = ext\<rparr>)"
  by (simp add: calculateThreatRange_def getModifier_names Let_def NATURAL_CRIT_def
        MAX_THREAT_RANGE_def)

lemma threat_range_bounds:
  "\<exists>t. calculateThreatRange abils vs eq = Inr t \<and> 18 \<le> minThreat t \<and> minThreat t \<le> 20"
  by (simp add: calculateThreatRange_eq Let_def)

text \<open>
  For all ability scores, visible stats and equipment, \<open>calculateThreatRange\<close> returns a
  threat range that extends downward from 20 by the extension the code computes, capped at
  2, so that the minimum threat value is never below 18 and never above 20.  The LCK modifier
  of the code is that of \<open>visibleStats.LCK || 8\<close>, which is the modifier of the visible
  LCK whenever that is not zero.  \<open>isFumble\<close> holds exactly when the roll is 1, and a roll
  is a critical threat exactly when it reaches the minimum threat value.
\<close>

lemma threat_range_capped:
  "\<exists>t. calculateThreatRange abils vs eq = Inr t
     \<and> extension t = min (max 0 (of_int (calculateModifier (of_int (aINT abils)))
                               + of_int (calculateModifier (orDefault (Some (vLCK vs)) 8))
                               + orDefault (eq ''criticalModifier'') 0)) 2
     \<and> minThreat t = 20 - extension t
     \<and> maxThreat t = 20
     \<and> 18 \<le> minThreat t \<and> minThreat t \<le> 20
     \<and> (vLCK vs \<noteq> 0 \<longrightarrow>
          minThreat t = max 18 (20 - max 0 (of_int (calculateModifier (of_int (aINT abils)))
                                           + of_int (calculateModifier (vLCK vs))
                                           + orDefault (eq ''criticalModifier'') 0)))
     \<and> (isFumble roll \<longleftrightarrow> roll = 1)
     \<and> (isCriticalHit roll t \<longleftrightarrow> of_int roll \<ge> minThreat t)"
  by (auto simp: calculateThreatRange_eq Let_def isFumble_def NATURAL_FUMBLE_def
        isCriticalHit_def orDefault_def)

lemma cm18: "calculateModifier 18 = 4" by (simp add: calculateModifier_def MODIFIER_OFFSET_def MODIFIER_DIVISOR_def)
lemma cm16: "calculateModifier 16 = 3" by (simp add: calculateModifier_def MODIFIER_OFFSET_def MODIFIER_DIVISOR_def)

text \<open>
  An attacker with INT 18 (+4) and visible LCK 16 (+3): the extension is capped, the range
  is 18 to 20.
\<close>

lemma threat_range_sample:
  "calculateThreatRange \<lparr>aSTR = 10, aDEX = 10, aCON = 10, aINT = 18, aWIS = 10, aCHA = 10\<rparr>
      \<lparr>vHP = 100, vMP = 50, vATK = 25, vDEF = 15, vMAG = 20, vRES = 10, vAGL = 15,
       vINT = 12, vMOV = 4, vRNG = 1, vLCK = 16\<rparr> Map.empty
     = Inr \<lparr>minThreat = 18, maxThreat = 20, extension = 2\<rparr>
   \<and> isFumble 1 \<and> \<not> isFumble 20"
  using threat_range_capped[of "\<lparr>aSTR = 10, aDEX = 10, aCON = 10, aINT = 18, aWIS = 10, aCHA = 10\<rparr>"
      "\<lparr>vHP = 100, vMP = 50, vATK = 25, vDEF = 15, vMAG = 20, vRES = 10, vAGL = 15,
       vINT = 12, vMOV = 4, vRNG = 1, vLCK = 16\<rparr>" Map.empty 1]
    threat_range_capped[of "\<lparr>aSTR = 10, aDEX = 10, aCON = 10, aINT = 18, aWIS = 10, aCHA = 10\<rparr>"
      "\<lparr>vHP = 100, vMP = 50, vATK = 25, vDEF = 15, vMAG = 20, vRES = 10, vAGL = 15,
       vINT = 12, vMOV = 4, vRNG = 1, vLCK = 16\<rparr>" Map.empty 20]
  by (auto simp: cm18 cm16 orDefault_def)


lemma cursedSage_hidden:
  "d_abilities (getHiddenData cursedSage) = baseAbilities\<lparr>aINT := 18\<rparr>"
  "d_visibleStats (getHiddenData cursedSage) = baseVisibleStats\<lparr>vLCK := 0\<rparr>"
  "d_equipment (getHiddenData cursedSage) = Map.empty"
  by (simp_all add: getHiddenData_def cursedSage_def recruit_def getCurrentStats_def
        applyEffect_def getModifiers_def hasExpired_def modifyStat_def noEffects_def Let_def
        baseVisibleStats_def getEquipmentAbilityModifiers_def)

lemma cm0: "calculateModifier 0 = - 5"
  by (simp add: calculateModifier_def MODIFIER_OFFSET_def MODIFIER_DIVISOR_def)

lemma cm8: "calculateModifier 8 = - 1"
  by (simp add: calculateModifier_def MODIFIER_OFFSET_def MODIFIER_DIVISOR_def floor_eq_iff)

text \<open>
  Claim C4 fails on the code at a visible LCK of 0, which a unit reaches when a status effect
  lowers its LCK: \<open>getCurrentStats\<close> stops at 0 and \<open>getHiddenData\<close> passes the value on.
  For the cursed sage (INT 18, modifier +4; LCK 0, modifier -5; no equipment bonus) the
  extension of the claim is \<open>max(0, 4 - 5 + 0) = 0\<close> and its minimum threat value is 20.
  The code reads \<open>visibleStats.LCK || 8\<close>, takes the modifier of 8 (-1) in place of that of
  0, and returns the extension 2 and the minimum threat value 18, so that a roll of 18 counts
  as a critical threat.
\<close>

theorem threat_range_zero_luck:
  "aINT (d_abilities (getHiddenData cursedSage)) = 18
   \<and> vLCK (d_visibleStats (getHiddenData cursedSage)) = 0
   \<and> d_equipment (getHiddenData cursedSage) ''criticalModifier'' = None
   \<and> calculateModifier 18 = 4 \<and> calculateModifier 0 = - 5 \<and> calculateModifier 8 = - 1
   \<and> max 18 (20 - max 0 (of_int (calculateModifier 18) + of_int (calculateModifier 0) + 0))
       = (20 :: rat)
   \<and> calculateThreatRange (d_abilities (getHiddenData cursedSage))
         (d_visibleStats (getHiddenData cursedSage)) (d_equipment (getHiddenData cursedSage))
       = Inr \<lparr>minThreat = 18, maxThreat = 20, extension = 2\<rparr>
   \<and> isCriticalHit 18 \<lparr>minThreat = 18, maxThreat = 20, extension = 2\<rparr>"
  by (simp add: cursedSage_hidden calculateThreatRange_eq Let_def cm18 cm0 cm8
        orDefault_def baseVisibleStats_def baseAbilities_def isCriticalHit_def)


text \<open>
  Claim C2.  For every attacker, defender and d20 roll, \<open>resolvePhysicalAttack\<close> returns
  a result (it never fails) with \<open>hit = (roll + attackBonus >= defenseValue)\<close>,
  \<open>critical = hit and roll >= minThreat\<close> of the attacker's threat range,
  \<open>fumble = (roll = 1)\<close> and \<open>margin = (roll + attackBonus) - defenseValue\<close>, where
  \<open>attackBonus = proficiency + (DEX modifier if ranged, else STR modifier) + weapon bonus\<close>.
  In particular a melee attacker with STR modifier +2, proficiency +2 and no equipment, against
  a defense value of 14 with roll 11, has total 15, hits and does not score a critical.
\<close>

theorem physical_attack_resolution:
  fixes attacker defender :: combatant and roll :: d20_roll and ranged :: bool
  defines "bonus \<equiv> of_int (calculateProficiency (d_level attacker))
             + of_int (calculateModifier (of_int
                 (if ranged then aDEX (d_abilities attacker) else aSTR (d_abilities attacker))))
             + orDefault (d_equipment attacker ''weapon'') 0"
  shows "\<exists>res dv threat.
       resolvePhysicalAttack attacker defender roll ranged = Inr res
     \<and> calculatePhysicalAttack (d_abilities attacker) (d_level attacker) ranged
           (d_equipment attacker) = Inr bonus
     \<and> calculatePhysicalDV (d_abilities defender) (d_equipment defender)
           (d_situational defender) = Inr dv
     \<and> calculateThreatRange (d_abilities attacker) (d_visibleStats attacker)
           (d_equipment attacker) = Inr threat
     \<and> attackBonus res = bonus \<and> defenseValue res = dv \<and> threatRange res = threat
     \<and> (hit res \<longleftrightarrow> of_int (result roll) + bonus \<ge> dv)
     \<and> (critical res \<longleftrightarrow> hit res \<and> of_int (result roll) \<ge> minThreat threat)
     \<and> (fumble res \<longleftrightarrow> result roll = 1)
     \<and> margin res = (of_int (result roll) + bonus) - dv
     \<and> totalAttack res = of_int (result roll) + bonus
     \<and> (calculateProficiency (d_level attacker) = 2
          \<and> calculateModifier (of_int (aSTR (d_abilities attacker))) = 2
          \<and> d_equipment attacker = Map.empty \<and> \<not> ranged
          \<and> dv = 14 \<and> result roll = 11
          \<longrightarrow> totalAttack res = 15 \<and> hit res \<and> \<not> critical res)"
proof -
  obtain threat where t: "calculateThreatRange (d_abilities attacker) (d_visibleStats attacker)
           (d_equipment attacker) = Inr threat" and lo: "18 \<le> minThreat threat"
    using threat_range_bounds by blast
  show ?thesis
    using lo
    by (simp add: resolvePhysicalAttack_def calculatePhysicalAttack_eq calculatePhysicalDV_eq
          t Let_def bonus_def isCriticalHit_def isFumble_def NATURAL_FUMBLE_def orDefault_def)
qed


lemma calculateModifier_values:
  "calculateModifier 14 = 2" "calculateModifier 10 = 0" "calculateModifier 8 = - 1"
  by (simp_all add: calculateModifier_def MODIFIER_OFFSET_def MODIFIER_DIVISOR_def floor_eq_iff)

text \<open>
  The scenario of the spec on concrete data: STR 14, level 1, no equipment, against DEX 10 with
  armor 4 (defense value 14), roll 11.
\<close>

theorem physical_attack_resolution_witness:
  "\<exists>res. resolvePhysicalAttack
       \<lparr>d_abilities = \<lparr>aSTR = 14, aDEX = 10, aCON = 10, aINT = 10, aWIS = 10, aCHA = 10\<rparr>,
        d_level = 1, d_equipment = Map.empty,
        d_visibleStats = \<lparr>vHP = 100, vMP = 50, vATK = 25, vDEF = 15, vMAG = 20, vRES = 10,
                          vAGL = 15, vINT = 12, vMOV = 4, vRNG = 1, vLCK = 8\<rparr>,
        d_situational = Map.empty\<rparr>
       \<lparr>d_abilities = \<lparr>aSTR = 10, aDEX = 10, aCON = 10, aINT = 10, aWIS = 10, aCHA = 10\<rparr>,
        d_level = 1, d_equipment = [''armor'' \<mapsto> 4],
        d_visibleStats = \<lparr>vHP = 100, vMP = 50, vATK = 25, vDEF = 15, vMAG = 20, vRES = 10,
                          vAGL = 15, vINT = 12, vMOV = 4, vRNG = 1, vLCK = 8\<rparr>,
        d_situational = Map.empty\<rparr>
       \<lparr>result = 11, rolls = [11], advantage = False, disadvantage = False\<rparr> False = Inr res
     \<and> attackBonus res = 4 \<and> defenseValue res = 14 \<and> totalAttack res = 15
     \<and> minThreat (threatRange res) = 20
     \<and> hit res \<and> \<not> critical res \<and> \<not> fumble res \<and> margin res = 1"
  using physical_attack_resolution[of
       "\<lparr>d_abilities = \<lparr>aSTR = 14, aDEX = 10, aCON = 10, aINT = 10, aWIS = 10, aCHA = 10\<rparr>,
        d_level = 1, d_equipment = Map.empty,
        d_visibleStats = \<lparr>vHP = 100, vMP = 50, vATK = 25, vDEF = 15, vMAG = 20, vRES = 10,
                          vAGL = 15, vINT = 12, vMOV = 4, vRNG = 1, vLCK = 8\<rparr>,
        d_situational = Map.empty\<rparr>"
       "\<lparr>d_abilities = \<lparr>aSTR = 10, aDEX = 10, aCON = 10, aINT = 10, aWIS = 10, aCHA = 10\<rparr>,
        d_level = 1, d_equipment = [''armor'' \<mapsto> 4],
        d_visibleStats = \<lparr>vHP = 100, vMP = 50, vATK = 25, vDEF = 15, vMAG = 20, vRES = 10,
                          vAGL = 15, vINT = 12, vMOV = 4, vRNG = 1, vLCK = 8\<rparr>,
        d_situational = Map.empty\<rparr>"
       "\<lparr>result = 11, rolls = [11], advantage = False, disadvantage = False\<rparr>" False]
  by (auto simp: calculatePhysicalDV_eq calculateThreatRange_eq calculateModifier_values
        calculateProficiency_def orDefault_def Let_def)

section \<open>Properties of double-precision arithmetic\<close>


lemma ulp_Suc: "ulp (Suc k) = 2 * ulp k" by (simp add: ulp_def)

lemma ulp_mono: "j \<le> k \<Longrightarrow> ulp j \<le> ulp k"
  by (simp add: ulp_def divide_right_mono)

lemma binade_search:
  "k0 \<le> k \<Longrightarrow> k \<le> 2046 \<Longrightarrow> (\<forall>j. k0 \<le> j \<and> j < k \<longrightarrow> 2 ^ 53 * ulp j \<le> q)
     \<Longrightarrow> k = 2046 \<or> q < 2 ^ 53 * ulp k \<Longrightarrow> binade q k0 = k"
proof (induction "k - k0" arbitrary: k0)
  case 0
  then have "k0 = k" by simp
  then show ?case using 0 by (subst binade.simps) auto
next
  case (Suc d)
  then have lt: "k0 < k" by simp
  then have "2 ^ 53 * ulp k0 \<le> q" using Suc.prems by simp
  then have "binade q k0 = binade q (Suc k0)"
    using lt Suc.prems(2) by (subst binade.simps) auto
  also have "\<dots> = k"
    using Suc.hyps(2) lt Suc.prems by (intro Suc.hyps(1)) auto
  finally show ?case .
qed

lemma binade_eq:
  assumes "k \<le> 2045" "k = 0 \<or> 2 ^ 52 * ulp k \<le> q" "q < 2 ^ 53 * ulp k"
  shows "binade q 0 = k"
proof (rule binade_search)
  show "\<forall>j. 0 \<le> j \<and> j < k \<longrightarrow> 2 ^ 53 * ulp j \<le> q"
  proof (intro allI impI)
    fix j assume j: "0 \<le> j \<and> j < k"
    then obtain k' where k': "k = Suc k'" by (cases k) auto
    have "2 ^ 53 * ulp j \<le> 2 ^ 53 * ulp k'" using j k' ulp_mono[of j k'] by simp
    also have "\<dots> = 2 ^ 52 * ulp k" by (simp add: k' ulp_Suc)
    also have "\<dots> \<le> q" using assms(2) k' by simp
    finally show "2 ^ 53 * ulp j \<le> q" .
  qed
qed (use assms in auto)


lemma roundHalfEven_near:
  "of_int n - 1 / 2 < x \<Longrightarrow> x < of_int n + 1 / 2 \<Longrightarrow> roundHalfEven x = n"
proof -
  assume a: "of_int n - 1 / 2 < x" "x < of_int n + 1 / 2"
  have "\<lfloor>x\<rfloor> = n \<or> \<lfloor>x\<rfloor> = n - 1" using a by (auto simp: floor_eq_iff)
  then show ?thesis
  proof
    assume f: "\<lfloor>x\<rfloor> = n"
    then have "x - of_int n < 1 / 2" using a by simp
    then show ?thesis by (simp add: roundHalfEven_def f Let_def)
  next
    assume f: "\<lfloor>x\<rfloor> = n - 1"
    then have "1 / 2 < x - of_int (n - 1)" using a by simp
    then show ?thesis by (simp add: roundHalfEven_def f Let_def)
  qed
qed

lemma roundHalfEven_int: "roundHalfEven (of_int n) = n"
  by (rule roundHalfEven_near) simp_all




lemma roundDouble_eval:
  assumes "k \<le> 2045" "k = 0 \<or> 2 ^ 52 * ulp k \<le> \<bar>q\<bar>" "\<bar>q\<bar> < 2 ^ 53 * ulp k"
    "of_int n - 1 / 2 < q / ulp k" "q / ulp k < of_int n + 1 / 2"
    "\<bar>of_int n * ulp k\<bar> < 2 ^ 1024"
  shows "roundDouble q = Finite (of_int n * ulp k)"
proof -
  have b: "binade \<bar>q\<bar> 0 = k" using assms(1-3) by (rule binade_eq)
  have r: "roundHalfEven (q / ulp k) = n" using assms(4,5) by (rule roundHalfEven_near)
  have "\<not> 2 ^ 1024 \<le> of_int n * ulp k" "\<not> of_int n * ulp k \<le> - (2 ^ 1024)"
    using assms(6) by (simp_all add: abs_less_iff)
  then show ?thesis by (simp add: roundDouble_def b r Let_def)
qed





lemma roundDouble_unfold:
  "roundDouble q =
     (if 2 ^ 1024 \<le> of_int (roundHalfEven (q / ulp (binade \<bar>q\<bar> 0))) * ulp (binade \<bar>q\<bar> 0)
        then PosInfinity
      else if of_int (roundHalfEven (q / ulp (binade \<bar>q\<bar> 0))) * ulp (binade \<bar>q\<bar> 0)
                \<le> - (2 ^ 1024) then NegInfinity
      else Finite (of_int (roundHalfEven (q / ulp (binade \<bar>q\<bar> 0))) * ulp (binade \<bar>q\<bar> 0)))"
  unfolding roundDouble_def Let_def by (rule refl)





lemma literal_values:
  "roundDouble (2 / 100) = Finite (5764607523034235 / 288230376151711744)"
  "roundDouble (9 / 10) = Finite (8106479329266893 / 9007199254740992)"
  "roundDouble (95 / 100) = Finite (4278419646001971 / 4503599627370496)"
  using roundDouble_eval[of 1016 "2 / 100" 5764607523034235]
    roundDouble_eval[of 1021 "9 / 10" 8106479329266893]
    roundDouble_eval[of 1021 "95 / 100" 8556839292003942]
  by (simp_all add: ulp_def)

lemma roundDouble_one: "roundDouble 1 = Finite 1"
  using roundDouble_eval[of 1022 1 4503599627370496] by (simp add: ulp_def)

lemma roundDouble_zero: "roundDouble 0 = Finite 0"
  using roundDouble_eval[of 0 0 0] by (simp add: ulp_def)







lemma num_sub_finite: "num_sub (Finite a) (Finite b) = roundDouble (a - b)"
  by (simp add: num_sub_def)




section \<open>Properties of the damage model\<close>

lemma damageMitigation_cases:
  "damageMitigation u ''physical''
     = num_mul (Finite (vDEF (getCurrentStats u))) (roundDouble (2 / 100))"
  "damageMitigation u ''magical''
     = num_mul (Finite (vRES (getCurrentStats u))) (roundDouble (2 / 100))"
  "ty \<noteq> ''physical'' \<Longrightarrow> ty \<noteq> ''magical'' \<Longrightarrow> damageMitigation u ty = Finite 0"
  by (simp_all add: damageMitigation_def Let_def)

lemma mitigatedDamage_bypass:
  assumes "ty \<noteq> ''physical''" "ty \<noteq> ''magical''"
  shows "mitigatedDamage u amount ty = Math_max (Finite 1) (Math_floor (roundDouble amount))"
proof -
  have "Math_min (roundDouble (9 / 10)) (Finite 0) = Finite 0"
    unfolding literal_values(2) by simp
  moreover have "num_sub (Finite 1) (Finite 0) = Finite 1"
    by (simp add: num_sub_finite roundDouble_one)
  ultimately show ?thesis
    unfolding mitigatedDamage_def damageMitigation_cases(3)[OF assms] by simp
qed






















lemma roundHalfEven_tie_down:
  "x = of_int n + 1 / 2 \<Longrightarrow> even n \<Longrightarrow> roundHalfEven x = n"
proof -
  assume a: "x = of_int n + 1 / 2" "even n"
  have f: "\<lfloor>x\<rfloor> = n" unfolding a(1) by (simp add: floor_eq_iff)
  show ?thesis unfolding roundHalfEven_def f Let_def using a by simp
qed

lemma roundHalfEven_tie_up:
  "x = of_int n - 1 / 2 \<Longrightarrow> even n \<Longrightarrow> roundHalfEven x = n"
proof -
  assume a: "x = of_int n - 1 / 2" "even n"
  have f: "\<lfloor>x\<rfloor> = n - 1" unfolding a(1) by (simp add: floor_eq_iff)
  show ?thesis unfolding roundHalfEven_def f Let_def using a by simp
qed

lemma roundDouble_round:
  assumes "k \<le> 2045" "k = 0 \<or> 2 ^ 52 * ulp k \<le> \<bar>q\<bar>" "\<bar>q\<bar> < 2 ^ 53 * ulp k"
    "roundHalfEven (q / ulp k) = n" "\<bar>of_int n * ulp k\<bar> < 2 ^ 1024"
  shows "roundDouble q = Finite (of_int n * ulp k)"
proof -
  have b: "binade \<bar>q\<bar> 0 = k" using assms(1-3) by (rule binade_eq)
  have "\<not> 2 ^ 1024 \<le> of_int n * ulp k" "\<not> of_int n * ulp k \<le> - (2 ^ 1024)"
    using assms(5) by (simp_all only: abs_less_iff) linarith+
  then show ?thesis unfolding roundDouble_unfold b assms(4) by (simp only: if_False)
qed

lemma sample_rounding_1:
  "roundDouble (86469112845513525 / 288230376151711744) = Finite (5404319552844595 / 18014398509481984)"
  using roundDouble_round[of 1020 "86469112845513525 / 288230376151711744" 5404319552844595] roundHalfEven_near[where n = 5404319552844595 and x = "(86469112845513525 / 288230376151711744) / ulp 1020"]
  by (simp add: ulp_def)

lemma sample_rounding_2:
  "roundDouble (12610078956637389 / 18014398509481984) = Finite (3152519739159347 / 4503599627370496)"
  using roundDouble_round[of 1021 "12610078956637389 / 18014398509481984" 6305039478318694] roundHalfEven_tie_down[where n = 6305039478318694 and x = "(12610078956637389 / 18014398509481984) / ulp 1021"]
  by (simp add: ulp_def)

lemma sample_rounding_3:
  "roundDouble (141863388262170615 / 2251799813685248) = Finite (8866461766385663 / 140737488355328)"
  using roundDouble_round[of 1027 "141863388262170615 / 2251799813685248" 8866461766385663] roundHalfEven_near[where n = 8866461766385663 and x = "(141863388262170615 / 2251799813685248) / ulp 1027"]
  by (simp add: ulp_def)

lemma sample_rounding_4:
  "roundDouble 0 = Finite 0"
  using roundDouble_round[of 0 0 0] roundHalfEven_near[where n = 0 and x = "0 / ulp 0"]
  by (simp add: ulp_def)

lemma sample_rounding_5:
  "roundDouble (38) = Finite (38)"
  using roundDouble_round[of 1027 38 5348024557502464] roundHalfEven_near[where n = 5348024557502464 and x = "38 / ulp 1027"]
  by (simp add: ulp_def)

lemma sample_rounding_6:
  "roundDouble (28) = Finite (28)"
  using roundDouble_round[of 1026 28 7881299347898368] roundHalfEven_near[where n = 7881299347898368 and x = "28 / ulp 1026"]
  by (simp add: ulp_def)

lemma sample_rounding_7:
  "roundDouble (15 / 2) = Finite (15 / 2)"
  using roundDouble_round[of 1024 "15 / 2" 8444249301319680] roundHalfEven_near[where n = 8444249301319680 and x = "(15 / 2) / ulp 1024"]
  by (simp add: ulp_def)

lemma sample_rounding_8:
  "roundDouble (3602879701896397 / 4503599627370496) = Finite (3602879701896397 / 4503599627370496)"
  using roundDouble_round[of 1021 "3602879701896397 / 4503599627370496" 7205759403792794] roundHalfEven_near[where n = 7205759403792794 and x = "(3602879701896397 / 4503599627370496) / ulp 1021"]
  by (simp add: ulp_def)

lemma sample_rounding_9:
  "roundDouble (28823037615171175 / 144115188075855872) = Finite (3602879701896397 / 18014398509481984)"
  using roundDouble_round[of 1019 "28823037615171175 / 144115188075855872" 7205759403792794] roundHalfEven_near[where n = 7205759403792794 and x = "(28823037615171175 / 144115188075855872) / ulp 1019"]
  by (simp add: ulp_def)

lemma sample_rounding_10:
  "roundDouble (10808639105689191 / 4503599627370496) = Finite (1351079888211149 / 562949953421312)"
  using roundDouble_round[of 1023 "10808639105689191 / 4503599627370496" 5404319552844596] roundHalfEven_tie_up[where n = 5404319552844596 and x = "(10808639105689191 / 4503599627370496) / ulp 1023"]
  by (simp add: ulp_def)

lemma sample_rounding_11:
  "roundDouble (10) = Finite (10)"
  using roundDouble_round[of 1025 10 5629499534213120] roundHalfEven_near[where n = 5629499534213120 and x = "10 / ulp 1025"]
  by (simp add: ulp_def)

lemma sample_rounding_12:
  "roundDouble (900719925474099 / 4503599627370496) = Finite (900719925474099 / 4503599627370496)"
  using roundDouble_round[of 1019 "900719925474099 / 4503599627370496" 7205759403792792] roundHalfEven_near[where n = 7205759403792792 and x = "(900719925474099 / 4503599627370496) / ulp 1019"]
  by (simp add: ulp_def)

lemma sample_rounding_13:
  "roundDouble (4503599627370495 / 2251799813685248) = Finite (4503599627370495 / 2251799813685248)"
  using roundDouble_round[of 1022 "4503599627370495 / 2251799813685248" 9007199254740990] roundHalfEven_near[where n = 9007199254740990 and x = "(4503599627370495 / 2251799813685248) / ulp 1022"]
  by (simp add: ulp_def)

lemma sample_rounding_14:
  "roundDouble (11) = Finite (11)"
  using roundDouble_round[of 1025 11 6192449487634432] roundHalfEven_near[where n = 6192449487634432 and x = "11 / ulp 1025"]
  by (simp add: ulp_def)

lemmas sample_roundings =
  sample_rounding_1 sample_rounding_2 sample_rounding_3 sample_rounding_4
  sample_rounding_5 sample_rounding_6 sample_rounding_7 sample_rounding_8
  sample_rounding_9 sample_rounding_10 sample_rounding_11 sample_rounding_12
  sample_rounding_13 sample_rounding_14




lemma recruit_true_damage:
  "mitigatedDamage (recruit n) (15 / 2) ''true'' = Finite 7"
  by (simp add: mitigatedDamage_bypass sample_roundings floor_eq_iff)






section \<open>Properties of the base damage computation\<close>

lemma rollDamageDice_ok:
  "1 \<le> n \<Longrightarrow>
     \<exists>rs r'. rollDamageDice k n r = Inr (rs, r') \<and> length rs = k
        \<and> callCount r' = callCount r + k \<and> list_all (\<lambda>x. 1 \<le> x \<and> x \<le> n) rs"
proof (induction k arbitrary: r)
  case 0
  then show ?case by simp
next
  case (Suc k)
  define v where "v = 1 + int (lcg (state r)) mod (n - 1 + 1)"
  define r1 where "r1 = r\<lparr>state := lcg (state r), callCount := callCount r + 1\<rparr>"
  have one: "randInt 1 n r = Inr (v, r1)"
    using Suc.prems by (simp add: randInt_def nextRaw_def Let_def v_def r1_def)
  have c1: "callCount r1 = callCount r + 1" by (simp add: r1_def)
  have "0 \<le> int (lcg (state r)) mod n" "int (lcg (state r)) mod n < n"
    using Suc.prems by simp_all
  then have v: "1 \<le> v \<and> v \<le> n" by (simp add: v_def)
  from Suc.IH[OF Suc.prems, of r1] obtain rs r' where
    rest: "rollDamageDice k n r1 = Inr (rs, r')" "length rs = k"
      "callCount r' = callCount r1 + k" "list_all (\<lambda>x. 1 \<le> x \<and> x \<le> n) rs"
    by blast
  show ?case
    using one rest c1 v by simp
qed

lemma WEAPON_DAMAGE_valid:
  "WEAPON_DAMAGE k = Some p \<Longrightarrow>
     1 \<le> sides p \<and> 1 \<le> dice p \<and>
     modifier p \<in> set [None, Some ''STR'', Some ''DEX'', Some ''INT'', Some ''WIS'']"
  unfolding WEAPON_DAMAGE_def
  by (auto split: if_splits)

lemma SPELL_DAMAGE_valid:
  "SPELL_DAMAGE k = Some p \<Longrightarrow>
     1 \<le> sides p \<and> 1 \<le> dice p \<and>
     modifier p \<in> set [None, Some ''STR'', Some ''DEX'', Some ''INT'', Some ''WIS'']"
  unfolding SPELL_DAMAGE_def
  by (auto split: if_splits)

lemma abilityDamageOf_ok:
  "governing \<in> set [None, Some ''STR'', Some ''DEX'', Some ''INT'', Some ''WIS''] \<Longrightarrow>
     \<exists>m. abilityDamageOf a governing = Inr m \<and> 0 \<le> m"
  by (auto simp: abilityDamageOf_def getModifier_names)


lemma nat_double: "nat (x * 2) = 2 * nat x"
  by (cases "0 \<le> x") (simp_all add: nat_mult_distrib mult.commute)

lemma calculateWeaponDamage_shape:
  assumes w: "WEAPON_DAMAGE (toUpperCase wt) = Some w"
  shows "\<exists>b r'. calculateWeaponDamage u wt r crit = Inr (b, r')
     \<and> length (diceRolls b) = (if crit then 2 * nat (dice w) else nat (dice w))
     \<and> callCount r' = callCount r + length (diceRolls b)
     \<and> abilityDamageOf (hiddenAbilities u) (modifier w) = Inr (abilityDamage b)
     \<and> 0 \<le> abilityDamage b
     \<and> enhancementBonus b = weaponEnhancement u
     \<and> totalDamage b = max 1 (of_int (sum_list (diceRolls b)) + of_int (abilityDamage b)
                               + weaponEnhancement u)"
proof -
  note v = WEAPON_DAMAGE_valid[OF w]
  define k where "k = nat (if crit then dice w * 2 else dice w)"
  have s1: "1 \<le> sides w" using v by simp
  obtain rs r' where roll: "rollDamageDice k (sides w) r = Inr (rs, r')" "length rs = k"
      "callCount r' = callCount r + k"
    using rollDamageDice_ok[OF s1, of k r] by blast
  obtain m where ab: "abilityDamageOf (hiddenAbilities u) (modifier w) = Inr m" "0 \<le> m"
    using abilityDamageOf_ok[of "modifier w" "hiddenAbilities u"] v by blast
  have kk: "k = (if crit then 2 * nat (dice w) else nat (dice w))"
    by (simp only: k_def nat_double if_distrib[of nat])
  have res: "calculateWeaponDamage u wt r crit =
      Inr (\<lparr>bd_type = damage_type w, diceDamage = sum_list rs, diceRolls = rs,
             abilityDamage = m, enhancementBonus = weaponEnhancement u, levelBonus = 0,
             totalDamage = max 1 (of_int (sum_list rs) + of_int m + weaponEnhancement u),
             isCritical = crit\<rparr>, r')"
    using roll(1) ab(1) unfolding calculateWeaponDamage_def w k_def Let_def by simp
  show ?thesis
    unfolding res using roll(2,3) ab kk by simp
qed

lemma calculateSpellDamage_shape:
  assumes w: "SPELL_DAMAGE (toUpperCase st) = Some w"
  shows "\<exists>b r'. calculateSpellDamage u st r crit lv = Inr (b, r')
     \<and> length (diceRolls b) = (if crit then 2 * nat (dice w + lv div 2)
                                 else nat (dice w + lv div 2))
     \<and> callCount r' = callCount r + length (diceRolls b)
     \<and> abilityDamageOf (hiddenAbilities u) (modifier w) = Inr (abilityDamage b)
     \<and> 0 \<le> abilityDamage b
     \<and> enhancementBonus b = focusEnhancement u
     \<and> levelBonus b = \<lfloor>of_int lv * (3 / 2 :: rat)\<rfloor>
     \<and> totalDamage b = max 1 (of_int (sum_list (diceRolls b)) + of_int (abilityDamage b)
                               + focusEnhancement u + of_int (levelBonus b))"
proof -
  note v = SPELL_DAMAGE_valid[OF w]
  define k where "k = nat (if crit then (dice w + lv div 2) * 2 else dice w + lv div 2)"
  have s1: "1 \<le> sides w" using v by simp
  obtain rs r' where roll: "rollDamageDice k (sides w) r = Inr (rs, r')" "length rs = k"
      "callCount r' = callCount r + k"
    using rollDamageDice_ok[OF s1, of k r] by blast
  obtain m where ab: "abilityDamageOf (hiddenAbilities u) (modifier w) = Inr m" "0 \<le> m"
    using abilityDamageOf_ok[of "modifier w" "hiddenAbilities u"] v by blast
  have kk: "k = (if crit then 2 * nat (dice w + lv div 2) else nat (dice w + lv div 2))"
    by (simp only: k_def nat_double if_distrib[of nat])
  have res: "calculateSpellDamage u st r crit lv =
      Inr (\<lparr>bd_type = damage_type w, diceDamage = sum_list rs, diceRolls = rs,
             abilityDamage = m, enhancementBonus = focusEnhancement u,
             levelBonus = \<lfloor>of_int lv * (3 / 2 :: rat)\<rfloor>,
             totalDamage = max 1 (of_int (sum_list rs) + of_int m + focusEnhancement u
                                  + of_int \<lfloor>of_int lv * (3 / 2 :: rat)\<rfloor>),
             isCritical = crit\<rparr>, r')"
    using roll(1) ab(1) unfolding calculateSpellDamage_def w k_def Let_def by simp
  show ?thesis
    unfolding res using roll(2,3) ab kk by simp
qed


text \<open>
  Claim C5, amended.  For every unit, known weapon or spell profile and RNG state, the
  critical computation rolls exactly twice as many dice as the non-critical one and draws
  exactly that many values from the RNG.  For a weapon the non-critical count is the profile's
  dice count; for a spell it is the profile's dice count plus \<open>floor(spellLevel / 2)\<close>, so a
  critical spell rolls twice the profile's count at spell level 0 or 1 (the default is 1) and
  more at higher levels.  The flat \<open>max(0, governing ability modifier)\<close> term, the
  enhancement or focus bonus and, for spells, the level bonus \<open>floor(spellLevel * 1.5)\<close>
  are the same in the critical and the non-critical result and enter the total once.
\<close>

theorem critical_doubles_dice:
  "(WEAPON_DAMAGE (toUpperCase weaponType) = Some w \<longrightarrow>
     (\<exists>bn rn bc rc.
        calculateWeaponDamage u weaponType r False = Inr (bn, rn)
      \<and> calculateWeaponDamage u weaponType r True = Inr (bc, rc)
      \<and> length (diceRolls bn) = nat (dice w) \<and> callCount rn = callCount r + nat (dice w)
      \<and> length (diceRolls bc) = 2 * nat (dice w) \<and> callCount rc = callCount r + 2 * nat (dice w)
      \<and> abilityDamageOf (hiddenAbilities u) (modifier w) = Inr (abilityDamage bc)
      \<and> abilityDamage bc = abilityDamage bn
      \<and> enhancementBonus bc = weaponEnhancement u \<and> enhancementBonus bn = weaponEnhancement u
      \<and> totalDamage bn = max 1 (of_int (sum_list (diceRolls bn)) + of_int (abilityDamage bn)
                                 + enhancementBonus bn)
      \<and> totalDamage bc = max 1 (of_int (sum_list (diceRolls bc)) + of_int (abilityDamage bc)
                                 + enhancementBonus bc)))
   \<and> (SPELL_DAMAGE (toUpperCase spellType) = Some s \<longrightarrow>
     (\<exists>bn rn bc rc.
        calculateSpellDamage u spellType r False spellLevel = Inr (bn, rn)
      \<and> calculateSpellDamage u spellType r True spellLevel = Inr (bc, rc)
      \<and> length (diceRolls bn) = nat (dice s + spellLevel div 2)
      \<and> callCount rn = callCount r + nat (dice s + spellLevel div 2)
      \<and> length (diceRolls bc) = 2 * nat (dice s + spellLevel div 2)
      \<and> callCount rc = callCount r + 2 * nat (dice s + spellLevel div 2)
      \<and> (spellLevel = 0 \<or> spellLevel = 1 \<longrightarrow> length (diceRolls bc) = 2 * nat (dice s))
      \<and> abilityDamageOf (hiddenAbilities u) (modifier s) = Inr (abilityDamage bc)
      \<and> abilityDamage bc = abilityDamage bn
      \<and> enhancementBonus bc = focusEnhancement u \<and> enhancementBonus bn = focusEnhancement u
      \<and> levelBonus bc = \<lfloor>of_int spellLevel * (3 / 2 :: rat)\<rfloor> \<and> levelBonus bn = levelBonus bc
      \<and> totalDamage bn = max 1 (of_int (sum_list (diceRolls bn)) + of_int (abilityDamage bn)
                                 + enhancementBonus bn + of_int (levelBonus bn))
      \<and> totalDamage bc = max 1 (of_int (sum_list (diceRolls bc)) + of_int (abilityDamage bc)
                                 + enhancementBonus bc + of_int (levelBonus bc))))"
proof (intro conjI impI)
  assume w: "WEAPON_DAMAGE (toUpperCase weaponType) = Some w"
  from calculateWeaponDamage_shape[OF w, of u r False] obtain bn rn where
    n: "calculateWeaponDamage u weaponType r False = Inr (bn, rn)"
       "length (diceRolls bn) = nat (dice w)"
       "callCount rn = callCount r + length (diceRolls bn)"
       "abilityDamageOf (hiddenAbilities u) (modifier w) = Inr (abilityDamage bn)"
       "enhancementBonus bn = weaponEnhancement u"
       "totalDamage bn = max 1 (of_int (sum_list (diceRolls bn)) + of_int (abilityDamage bn)
                               + weaponEnhancement u)"
    by auto
  from calculateWeaponDamage_shape[OF w, of u r True] obtain bc rc where
    c: "calculateWeaponDamage u weaponType r True = Inr (bc, rc)"
       "length (diceRolls bc) = 2 * nat (dice w)"
       "callCount rc = callCount r + length (diceRolls bc)"
       "abilityDamageOf (hiddenAbilities u) (modifier w) = Inr (abilityDamage bc)"
       "enhancementBonus bc = weaponEnhancement u"
       "totalDamage bc = max 1 (of_int (sum_list (diceRolls bc)) + of_int (abilityDamage bc)
                               + weaponEnhancement u)"
    by auto
  have "abilityDamage bc = abilityDamage bn" using n(4) c(4) by simp
  then show "\<exists>bn rn bc rc.
        calculateWeaponDamage u weaponType r False = Inr (bn, rn)
      \<and> calculateWeaponDamage u weaponType r True = Inr (bc, rc)
      \<and> length (diceRolls bn) = nat (dice w) \<and> callCount rn = callCount r + nat (dice w)
      \<and> length (diceRolls bc) = 2 * nat (dice w) \<and> callCount rc = callCount r + 2 * nat (dice w)
      \<and> abilityDamageOf (hiddenAbilities u) (modifier w) = Inr (abilityDamage bc)
      \<and> abilityDamage bc = abilityDamage bn
      \<and> enhancementBonus bc = weaponEnhancement u \<and> enhancementBonus bn = weaponEnhancement u
      \<and> totalDamage bn = max 1 (of_int (sum_list (diceRolls bn)) + of_int (abilityDamage bn)
                                 + enhancementBonus bn)
      \<and> totalDamage bc = max 1 (of_int (sum_list (diceRolls bc)) + of_int (abilityDamage bc)
                                 + enhancementBonus bc)"
    using n c by (intro exI[of _ bn] exI[of _ rn] exI[of _ bc] exI[of _ rc]) simp
next
  assume w: "SPELL_DAMAGE (toUpperCase spellType) = Some s"
  from calculateSpellDamage_shape[OF w, of u r False spellLevel] obtain bn rn where
    n: "calculateSpellDamage u spellType r False spellLevel = Inr (bn, rn)"
       "length (diceRolls bn) = nat (dice s + spellLevel div 2)"
       "callCount rn = callCount r + length (diceRolls bn)"
       "abilityDamageOf (hiddenAbilities u) (modifier s) = Inr (abilityDamage bn)"
       "enhancementBonus bn = focusEnhancement u"
       "levelBonus bn = \<lfloor>of_int spellLevel * (3 / 2 :: rat)\<rfloor>"
       "totalDamage bn = max 1 (of_int (sum_list (diceRolls bn)) + of_int (abilityDamage bn)
                               + focusEnhancement u + of_int (levelBonus bn))"
    by auto
  from calculateSpellDamage_shape[OF w, of u r True spellLevel] obtain bc rc where
    c: "calculateSpellDamage u spellType r True spellLevel = Inr (bc, rc)"
       "length (diceRolls bc) = 2 * nat (dice s + spellLevel div 2)"
       "callCount rc = callCount r + length (diceRolls bc)"
       "abilityDamageOf (hiddenAbilities u) (modifier s) = Inr (abilityDamage bc)"
       "enhancementBonus bc = focusEnhancement u"
       "levelBonus bc = \<lfloor>of_int spellLevel * (3 / 2 :: rat)\<rfloor>"
       "totalDamage bc = max 1 (of_int (sum_list (diceRolls bc)) + of_int (abilityDamage bc)
                               + focusEnhancement u + of_int (levelBonus bc))"
    by auto
  have e: "abilityDamage bc = abilityDamage bn" using n(4) c(4) by simp
  have d: "spellLevel = 0 \<or> spellLevel = 1 \<longrightarrow> length (diceRolls bc) = 2 * nat (dice s)"
    using c(2) by auto
  show "\<exists>bn rn bc rc.
        calculateSpellDamage u spellType r False spellLevel = Inr (bn, rn)
      \<and> calculateSpellDamage u spellType r True spellLevel = Inr (bc, rc)
      \<and> length (diceRolls bn) = nat (dice s + spellLevel div 2)
      \<and> callCount rn = callCount r + nat (dice s + spellLevel div 2)
      \<and> length (diceRolls bc) = 2 * nat (dice s + spellLevel div 2)
      \<and> callCount rc = callCount r + 2 * nat (dice s + spellLevel div 2)
      \<and> (spellLevel = 0 \<or> spellLevel = 1 \<longrightarrow> length (diceRolls bc) = 2 * nat (dice s))
      \<and> abilityDamageOf (hiddenAbilities u) (modifier s) = Inr (abilityDamage bc)
      \<and> abilityDamage bc = abilityDamage bn
      \<and> enhancementBonus bc = focusEnhancement u \<and> enhancementBonus bn = focusEnhancement u
      \<and> levelBonus bc = \<lfloor>of_int spellLevel * (3 / 2 :: rat)\<rfloor> \<and> levelBonus bn = levelBonus bc
      \<and> totalDamage bn = max 1 (of_int (sum_list (diceRolls bn)) + of_int (abilityDamage bn)
                                 + enhancementBonus bn + of_int (levelBonus bn))
      \<and> totalDamage bc = max 1 (of_int (sum_list (diceRolls bc)) + of_int (abilityDamage bc)
                                 + enhancementBonus bc + of_int (levelBonus bc))"
    using n c e d by (intro exI[of _ bn] exI[of _ rn] exI[of _ bc] exI[of _ rc]) simp
qed

lemma sword_profile:
  "WEAPON_DAMAGE (toUpperCase ''sword'')
     = Some \<lparr>dice = 2, sides = 6, modifier = Some ''STR'', damage_type = ''slashing''\<rparr>"
  by (simp add: WEAPON_DAMAGE_def toUpperCase_def upperChar_def)

lemma fireball_profile:
  "SPELL_DAMAGE (toUpperCase ''fireball'')
     = Some \<lparr>dice = 6, sides = 6, modifier = Some ''INT'', damage_type = ''fire''\<rparr>"
  by (simp add: SPELL_DAMAGE_def toUpperCase_def upperChar_def)

text \<open>
  A sword (2d6) rolls 2 dice, 4 on a critical; a fireball (6d6) at spell level 1 rolls 6
  dice, 12 on a critical; the flat terms agree.
\<close>

theorem critical_doubles_dice_witness:
  "(\<exists>bn rn bc rc.
      calculateWeaponDamage (recruit ''a'') ''sword'' (DeterministicRNG (Finite 12345)) False
        = Inr (bn, rn)
    \<and> calculateWeaponDamage (recruit ''a'') ''sword'' (DeterministicRNG (Finite 12345)) True
        = Inr (bc, rc)
    \<and> length (diceRolls bn) = 2 \<and> length (diceRolls bc) = 4
    \<and> abilityDamage bc = abilityDamage bn \<and> enhancementBonus bc = enhancementBonus bn)
   \<and> (\<exists>bn rn bc rc.
      calculateSpellDamage (recruit ''a'') ''fireball'' (DeterministicRNG (Finite 12345)) False 1
        = Inr (bn, rn)
    \<and> calculateSpellDamage (recruit ''a'') ''fireball'' (DeterministicRNG (Finite 12345)) True 1
        = Inr (bc, rc)
    \<and> length (diceRolls bn) = 6 \<and> length (diceRolls bc) = 12
    \<and> abilityDamage bc = abilityDamage bn \<and> enhancementBonus bc = enhancementBonus bn
    \<and> levelBonus bc = 1 \<and> levelBonus bn = 1)"
proof -
  have f: "\<lfloor>3 / 2 :: rat\<rfloor> = 1" by (simp add: floor_eq_iff)
  note t = critical_doubles_dice[where weaponType = "''sword''" and spellType = "''fireball''"
      and u = "recruit ''a''" and r = "DeterministicRNG (Finite 12345)" and spellLevel = 1
      and w = "\<lparr>dice = 2, sides = 6, modifier = Some ''STR'', damage_type = ''slashing''\<rparr>"
      and s = "\<lparr>dice = 6, sides = 6, modifier = Some ''INT'', damage_type = ''fire''\<rparr>"]
  from t have a: "\<exists>bn rn bc rc.
      calculateWeaponDamage (recruit ''a'') ''sword'' (DeterministicRNG (Finite 12345)) False
        = Inr (bn, rn)
    \<and> calculateWeaponDamage (recruit ''a'') ''sword'' (DeterministicRNG (Finite 12345)) True
        = Inr (bc, rc)
    \<and> length (diceRolls bn) = 2 \<and> length (diceRolls bc) = 4
    \<and> abilityDamage bc = abilityDamage bn \<and> enhancementBonus bc = enhancementBonus bn"
    by (simp add: sword_profile fireball_profile) metis
  from t have b: "\<exists>bn rn bc rc.
      calculateSpellDamage (recruit ''a'') ''fireball'' (DeterministicRNG (Finite 12345)) False 1
        = Inr (bn, rn)
    \<and> calculateSpellDamage (recruit ''a'') ''fireball'' (DeterministicRNG (Finite 12345)) True 1
        = Inr (bc, rc)
    \<and> length (diceRolls bn) = 6 \<and> length (diceRolls bc) = 12
    \<and> abilityDamage bc = abilityDamage bn \<and> enhancementBonus bc = enhancementBonus bn
    \<and> levelBonus bc = 1 \<and> levelBonus bn = 1"
    by (simp add: sword_profile fireball_profile f) metis
  from a b show ?thesis by (rule conjI)
qed

text \<open>
  Claim C5 as stated fails for spells above level 1: the fireball profile has 6 dice, and a
  critical fireball at spell level 2 rolls 14 dice, not 12.
\<close>

theorem critical_spell_dice_counterexample:
  "map_option dice (SPELL_DAMAGE (toUpperCase ''fireball'')) = Some 6
   \<and> map_sum id (length \<circ> diceRolls \<circ> fst)
        (calculateSpellDamage (recruit ''a'') ''fireball'' (DeterministicRNG (Finite 12345)) True 2)
       = Inr 14"
proof -
  from calculateSpellDamage_shape[OF fireball_profile,
      of "recruit ''a''" "DeterministicRNG (Finite 12345)" True 2]
  show ?thesis by (auto simp: fireball_profile)
qed

section \<open>Properties of the situational layer and the hit preview\<close>

lemma attackerStatusModifier_keeps:
  "attackerDisadvantage m \<Longrightarrow> attackerDisadvantage (attackerStatusModifier m e)"
  by (simp add: attackerStatusModifier_def Let_def)

lemma defenderStatusModifier_keeps:
  "attackerDisadvantage m \<Longrightarrow> attackerDisadvantage (defenderStatusModifier m e)"
  by (simp add: defenderStatusModifier_def Let_def)

lemma foldl_attacker_keeps:
  "attackerDisadvantage m \<Longrightarrow> attackerDisadvantage (foldl attackerStatusModifier m es)"
  by (induction es arbitrary: m) (simp_all add: attackerStatusModifier_keeps)

lemma foldl_defender_keeps:
  "attackerDisadvantage m \<Longrightarrow> attackerDisadvantage (foldl defenderStatusModifier m es)"
  by (induction es arbitrary: m) (simp_all add: defenderStatusModifier_keeps)

lemma calculateStatusModifiers_keeps:
  "attackerDisadvantage m \<Longrightarrow> attackerDisadvantage (calculateStatusModifiers a d m)"
  by (simp add: calculateStatusModifiers_def foldl_attacker_keeps foldl_defender_keeps)

lemma calculateFacingModifiers_keeps:
  "attackerDisadvantage m \<Longrightarrow> attackerDisadvantage (calculateFacingModifiers angle m)"
  by (simp add: calculateFacingModifiers_def Let_def)

lemma calculateTerrainModifiers_cover:
  "getTerrainAt cs (fst (position d)) (snd (position d)) = Some t \<Longrightarrow> providesCover t \<Longrightarrow>
   coverValue t \<ge> 1 / 2 \<Longrightarrow> attackerDisadvantage (calculateTerrainModifiers a d cs m)"
  by (simp add: calculateTerrainModifiers_def Let_def)

lemma calculate_cover_disadvantage:
  "getTerrainAt cs (fst (position d)) (snd (position d)) = Some t \<Longrightarrow> providesCover t \<Longrightarrow>
   coverValue t \<ge> 1 / 2 \<Longrightarrow> attackerDisadvantage (calculate a d cs angle)"
  unfolding calculate_def Let_def
  by (intro calculateFacingModifiers_keeps calculateStatusModifiers_keeps
        calculateTerrainModifiers_cover)

lemma resolveRollType_cases:
  "resolveRollType m =
     (if attackerAdvantage m \<and> attackerDisadvantage m then ''normal''
      else if attackerAdvantage m then ''advantage''
      else if attackerDisadvantage m then ''disadvantage''
      else ''normal'')"
  by (simp add: resolveRollType_def)

lemma calculateHitProbabilities_effective:
  "effective (calculateHitProbabilities b dv rt) =
     (if rt = ''advantage''
        then 1 - (1 - normal (calculateHitProbabilities b dv rt))
                 * (1 - normal (calculateHitProbabilities b dv rt))
      else if rt = ''disadvantage''
        then normal (calculateHitProbabilities b dv rt) * normal (calculateHitProbabilities b dv rt)
      else normal (calculateHitProbabilities b dv rt))"
  "normal (calculateHitProbabilities b dv rt) = max 0 ((20 - max 1 (dv - b) + 1) / 20)"
  by (simp_all add: calculateHitProbabilities_def Let_def D20_MAX_def)

lemma calculateHitChance_fields:
  "calculateHitChance a d cs opts angle = Inr h \<Longrightarrow>
     situationalModifiers h = calculate a d cs angle
     \<and> rollType h = resolveRollType (calculate a d cs angle)
     \<and> baseHitChance h
         = normal (calculateHitProbabilities (hc_attackBonus h) (hc_defenseValue h) (rollType h))
     \<and> effectiveHitChance h
         = effective (calculateHitProbabilities (hc_attackBonus h) (hc_defenseValue h) (rollType h))"
  unfolding calculateHitChance_def Let_def
  by (auto split: sum.splits if_splits prod.splits)


lemma calculateCriticalChances_ok: "\<exists>c. calculateCriticalChances data rt = Inr c"
  by (simp add: calculateCriticalChances_def calculateThreatRange_eq Let_def)

lemma calculateSpellAttack_INT:
  "\<exists>b. calculateSpellAttack abils lv ''INT'' eq = Inr b"
  by (simp add: calculateSpellAttack_def getModifier_names Let_def)

lemma calculateMagicalDV_ok: "\<exists>dv. calculateMagicalDV abils eq situ = Inr dv"
  by (simp add: calculateMagicalDV_def getModifier_names Let_def)

lemma calculateHitChance_ok:
  assumes "primaryAbility opts = None"
  shows "\<exists>h. calculateHitChance a d cs opts angle = Inr h"
proof -
  obtain c where c: "calculateCriticalChances (getHiddenData a)
      (resolveRollType (calculate a d cs angle)) = Inr c"
    using calculateCriticalChances_ok by blast
  obtain sb where sb: "calculateSpellAttack (d_abilities (getHiddenData a))
      (d_level (getHiddenData a)) ''INT'' (d_equipment (getHiddenData a)) = Inr sb"
    using calculateSpellAttack_INT by blast
  obtain mdv where mdv: "calculateMagicalDV (d_abilities (getHiddenData d))
      (d_equipment (getHiddenData d))
      ([''coverBonus'' \<mapsto> coverBonus (calculate a d cs angle),
        ''heightBonus'' \<mapsto> heightBonus (calculate a d cs angle),
        ''buffs'' \<mapsto> coverBonus (calculate a d cs angle) * (1 / 2)]) = Inr mdv"
    using calculateMagicalDV_ok by blast
  show ?thesis
    unfolding calculateHitChance_def Let_def
    using assms c sb mdv
    by (simp add: calculatePhysicalAttack_eq calculatePhysicalDV_eq)
qed

text \<open>
  Claim C6, amended.  For every attack preview whose defender stands on terrain that provides
  cover (cover value above 0 and, for a destructible tile, hit points left) with a cover value
  of at least 0.5, the situational layer reports attacker disadvantage; if it reports no
  attacker advantage, the roll type is \<open>disadvantage\<close> and the previewed effective hit chance
  is the square of the normal single-roll chance.  Whenever the layer reports both advantage
  and disadvantage the roll type is \<open>normal\<close> and the effective chance is the normal one, so
  at most one net state applies.  A preview without an explicit casting ability always returns
  a result.  (The attack angle of the facing rule is an input of the model.)
\<close>

theorem cover_disadvantage_preview:
  "(getTerrainAt cs (fst (position d)) (snd (position d)) = Some t \<and> providesCover t
      \<and> coverValue t \<ge> 1 / 2
      \<longrightarrow> attackerDisadvantage (calculate a d cs angle))
   \<and> (primaryAbility opts = None \<longrightarrow> (\<exists>h'. calculateHitChance a d cs opts angle = Inr h'))
   \<and> (calculateHitChance a d cs opts angle = Inr h \<longrightarrow>
        situationalModifiers h = calculate a d cs angle
      \<and> baseHitChance h
          = max 0 ((20 - max 1 (hc_defenseValue h - hc_attackBonus h) + 1) / 20)
      \<and> (getTerrainAt cs (fst (position d)) (snd (position d)) = Some t \<and> providesCover t
           \<and> coverValue t \<ge> 1 / 2 \<and> \<not> attackerAdvantage (situationalModifiers h)
          \<longrightarrow> attackerDisadvantage (situationalModifiers h)
              \<and> rollType h = ''disadvantage''
              \<and> effectiveHitChance h = baseHitChance h * baseHitChance h)
      \<and> (attackerAdvantage (situationalModifiers h) \<and> attackerDisadvantage (situationalModifiers h)
          \<longrightarrow> rollType h = ''normal'' \<and> effectiveHitChance h = baseHitChance h)
      \<and> (attackerAdvantage (situationalModifiers h)
           \<and> \<not> attackerDisadvantage (situationalModifiers h)
          \<longrightarrow> rollType h = ''advantage'')
      \<and> (attackerDisadvantage (situationalModifiers h)
           \<and> \<not> attackerAdvantage (situationalModifiers h)
          \<longrightarrow> rollType h = ''disadvantage'')
      \<and> (\<not> attackerAdvantage (situationalModifiers h)
           \<and> \<not> attackerDisadvantage (situationalModifiers h)
          \<longrightarrow> rollType h = ''normal'' \<and> effectiveHitChance h = baseHitChance h))"
proof -
  have p1: "getTerrainAt cs (fst (position d)) (snd (position d)) = Some t \<and> providesCover t
      \<and> coverValue t \<ge> 1 / 2
      \<longrightarrow> attackerDisadvantage (calculate a d cs angle)"
    using calculate_cover_disadvantage by blast
  have p2: "primaryAbility opts = None \<longrightarrow> (\<exists>h'. calculateHitChance a d cs opts angle = Inr h')"
    using calculateHitChance_ok by blast
  have p3: "calculateHitChance a d cs opts angle = Inr h \<longrightarrow>
        situationalModifiers h = calculate a d cs angle
      \<and> baseHitChance h
          = max 0 ((20 - max 1 (hc_defenseValue h - hc_attackBonus h) + 1) / 20)
      \<and> (getTerrainAt cs (fst (position d)) (snd (position d)) = Some t \<and> providesCover t
           \<and> coverValue t \<ge> 1 / 2 \<and> \<not> attackerAdvantage (situationalModifiers h)
          \<longrightarrow> attackerDisadvantage (situationalModifiers h)
              \<and> rollType h = ''disadvantage''
              \<and> effectiveHitChance h = baseHitChance h * baseHitChance h)
      \<and> (attackerAdvantage (situationalModifiers h) \<and> attackerDisadvantage (situationalModifiers h)
          \<longrightarrow> rollType h = ''normal'' \<and> effectiveHitChance h = baseHitChance h)
      \<and> (attackerAdvantage (situationalModifiers h)
           \<and> \<not> attackerDisadvantage (situationalModifiers h)
          \<longrightarrow> rollType h = ''advantage'')
      \<and> (attackerDisadvantage (situationalModifiers h)
           \<and> \<not> attackerAdvantage (situationalModifiers h)
          \<longrightarrow> rollType h = ''disadvantage'')
      \<and> (\<not> attackerAdvantage (situationalModifiers h)
           \<and> \<not> attackerDisadvantage (situationalModifiers h)
          \<longrightarrow> rollType h = ''normal'' \<and> effectiveHitChance h = baseHitChance h)"
  proof
    assume h: "calculateHitChance a d cs opts angle = Inr h"
    note f = calculateHitChance_fields[OF h]
    have q1: "situationalModifiers h = calculate a d cs angle" using f by simp
    have q2: "baseHitChance h
          = max 0 ((20 - max 1 (hc_defenseValue h - hc_attackBonus h) + 1) / 20)"
      using f by (simp add: calculateHitProbabilities_effective(2))
    have q4: "attackerAdvantage (situationalModifiers h) \<and> attackerDisadvantage (situationalModifiers h)
          \<longrightarrow> rollType h = ''normal'' \<and> effectiveHitChance h = baseHitChance h"
      using f by (simp add: calculateHitProbabilities_effective(1) resolveRollType_cases)
    have q5: "attackerAdvantage (situationalModifiers h)
           \<and> \<not> attackerDisadvantage (situationalModifiers h)
          \<longrightarrow> rollType h = ''advantage''"
      using f by (simp add: resolveRollType_cases)
    have q6: "attackerDisadvantage (situationalModifiers h)
           \<and> \<not> attackerAdvantage (situationalModifiers h)
          \<longrightarrow> rollType h = ''disadvantage''"
      using f by (simp add: resolveRollType_cases)
    have q7: "\<not> attackerAdvantage (situationalModifiers h)
           \<and> \<not> attackerDisadvantage (situationalModifiers h)
          \<longrightarrow> rollType h = ''normal'' \<and> effectiveHitChance h = baseHitChance h"
      using f by (simp add: calculateHitProbabilities_effective(1) resolveRollType_cases)
    have q3: "getTerrainAt cs (fst (position d)) (snd (position d)) = Some t \<and> providesCover t
           \<and> coverValue t \<ge> 1 / 2 \<and> \<not> attackerAdvantage (situationalModifiers h)
          \<longrightarrow> attackerDisadvantage (situationalModifiers h)
              \<and> rollType h = ''disadvantage''
              \<and> effectiveHitChance h = baseHitChance h * baseHitChance h"
    proof
      assume c: "getTerrainAt cs (fst (position d)) (snd (position d)) = Some t \<and> providesCover t
           \<and> coverValue t \<ge> 1 / 2 \<and> \<not> attackerAdvantage (situationalModifiers h)"
      have dis: "attackerDisadvantage (calculate a d cs angle)"
        using c calculate_cover_disadvantage by blast
      show "attackerDisadvantage (situationalModifiers h)
              \<and> rollType h = ''disadvantage''
              \<and> effectiveHitChance h = baseHitChance h * baseHitChance h"
        using f c dis by (simp add: calculateHitProbabilities_effective(1) resolveRollType_cases)
    qed
    show "situationalModifiers h = calculate a d cs angle
      \<and> baseHitChance h
          = max 0 ((20 - max 1 (hc_defenseValue h - hc_attackBonus h) + 1) / 20)
      \<and> (getTerrainAt cs (fst (position d)) (snd (position d)) = Some t \<and> providesCover t
           \<and> coverValue t \<ge> 1 / 2 \<and> \<not> attackerAdvantage (situationalModifiers h)
          \<longrightarrow> attackerDisadvantage (situationalModifiers h)
              \<and> rollType h = ''disadvantage''
              \<and> effectiveHitChance h = baseHitChance h * baseHitChance h)
      \<and> (attackerAdvantage (situationalModifiers h) \<and> attackerDisadvantage (situationalModifiers h)
          \<longrightarrow> rollType h = ''normal'' \<and> effectiveHitChance h = baseHitChance h)
      \<and> (attackerAdvantage (situationalModifiers h)
           \<and> \<not> attackerDisadvantage (situationalModifiers h)
          \<longrightarrow> rollType h = ''advantage'')
      \<and> (attackerDisadvantage (situationalModifiers h)
           \<and> \<not> attackerAdvantage (situationalModifiers h)
          \<longrightarrow> rollType h = ''disadvantage'')
      \<and> (\<not> attackerAdvantage (situationalModifiers h)
           \<and> \<not> attackerDisadvantage (situationalModifiers h)
          \<longrightarrow> rollType h = ''normal'' \<and> effectiveHitChance h = baseHitChance h)"
      by (intro conjI) (fact q1 q2 q3 q4 q5 q6 q7)+
  qed
  show ?thesis
    by (intro conjI) (fact p1 p2 p3)+
qed


lemma duel_calculate:
  "calculate duelAttacker duelDefender (duelState (ruinTile (3 / 5) False None)) 0
     = \<lparr>attackerAdvantage = False, attackerDisadvantage = True,
        defenderAdvantage = False, defenderDisadvantage = False,
        coverBonus = 3 / 5, heightBonus = 0, flanking = False, backstab = False,
        effectTags = []\<rparr>"
  by (simp add: calculate_def calculatePositionalModifiers_def calculateTerrainModifiers_def
        calculateStatusModifiers_def calculateFacingModifiers_def getTerrainAt_def
        duelState_def duelAttacker_def duelDefender_def recruit_def ruinTile_def
        providesCover_def Let_def)


lemma recruit_hidden:
  "getHiddenData ((recruit n)\<lparr>position := p\<rparr>)
     = \<lparr>d_abilities = baseAbilities, d_level = 1, d_equipment = Map.empty,
        d_visibleStats = baseVisibleStats, d_situational = Map.empty\<rparr>"
  "getHiddenData (recruit n)
     = \<lparr>d_abilities = baseAbilities, d_level = 1, d_equipment = Map.empty,
        d_visibleStats = baseVisibleStats, d_situational = Map.empty\<rparr>"
  by (simp_all add: getHiddenData_def recruit_def getEquipmentAbilityModifiers_def
        getCurrentStats_def)

lemma base_modifiers:
  "calculateModifier (of_int (aSTR baseAbilities)) = 0"
  "calculateModifier (of_int (aDEX baseAbilities)) = 0"
  "calculateModifier (of_int (aINT baseAbilities)) = 0"
  "calculateModifier (vLCK baseVisibleStats) = - 1"
  by (simp_all add: baseAbilities_def baseVisibleStats_def calculateModifier_values)

lemma duel_preview:
  "calculateHitChance duelAttacker duelDefender (duelState (ruinTile (3 / 5) False None))
      meleePreview 0
     = Inr \<lparr>baseHitChance = 1 / 2, effectiveHitChance = 1 / 4, criticalChance = 1 / 400,
            rollType = ''disadvantage'', hc_attackBonus = 2, hc_defenseValue = 13,
            hc_requiredRoll = 11,
            situationalModifiers =
              \<lparr>attackerAdvantage = False, attackerDisadvantage = True,
               defenderAdvantage = False, defenderDisadvantage = False,
               coverBonus = 3 / 5, heightBonus = 0, flanking = False, backstab = False,
               effectTags = []\<rparr>\<rparr>"
proof -
  have cls: "unit_class duelAttacker = ''SWORDSMAN''"
    by (simp add: duelAttacker_def recruit_def)
  have rng: "\<not> isRangedAttack duelAttacker duelDefender"
    by (simp add: isRangedAttack_def calculateDistance_def duelAttacker_def duelDefender_def
          recruit_def Let_def)
  have hid: "getHiddenData duelAttacker = \<lparr>d_abilities = baseAbilities, d_level = 1,
        d_equipment = Map.empty, d_visibleStats = baseVisibleStats, d_situational = Map.empty\<rparr>"
      "getHiddenData duelDefender = \<lparr>d_abilities = baseAbilities, d_level = 1,
        d_equipment = Map.empty, d_visibleStats = baseVisibleStats, d_situational = Map.empty\<rparr>"
    by (simp_all add: duelAttacker_def duelDefender_def recruit_hidden)
  show ?thesis
    unfolding calculateHitChance_def Let_def duel_calculate hid
    by (simp add: cls rng meleePreview_def resolveRollType_def calculatePhysicalAttack_eq
          calculatePhysicalDV_eq calculateCriticalChances_def calculateThreatRange_eq
          calculateHitProbabilities_def base_modifiers calculateProficiency_def
          orDefault_def D20_MAX_def Let_def baseVisibleStats_def calculateModifier_values)
qed


lemma duel_calculate_destroyed:
  "calculate duelAttacker duelDefender (duelState (ruinTile (3 / 5) True None)) 0
     = \<lparr>attackerAdvantage = False, attackerDisadvantage = False,
        defenderAdvantage = False, defenderDisadvantage = False,
        coverBonus = 0, heightBonus = 0, flanking = False, backstab = False,
        effectTags = []\<rparr>"
  by (simp add: calculate_def calculatePositionalModifiers_def calculateTerrainModifiers_def
        calculateStatusModifiers_def calculateFacingModifiers_def getTerrainAt_def
        duelState_def duelAttacker_def duelDefender_def recruit_def ruinTile_def
        providesCover_def Let_def attackerStatusModifier_def namedEffect_def
        toLowerCase_def lowerChar_def)

lemma duel_calculate_blessed:
  "calculate (duelAttacker\<lparr>statusEffects := [namedEffect ''blessed'' ''buff'']\<rparr>) duelDefender
      (duelState (ruinTile (3 / 5) False None)) 0
     = \<lparr>attackerAdvantage = True, attackerDisadvantage = True,
        defenderAdvantage = False, defenderDisadvantage = False,
        coverBonus = 3 / 5, heightBonus = 0, flanking = False, backstab = False,
        effectTags = [\<lparr>tag_source = ''attacker'', tag_effect = ''blessed'',
                       tag_type = ''buff''\<rparr>]\<rparr>"
  by (simp add: calculate_def calculatePositionalModifiers_def calculateTerrainModifiers_def
        calculateStatusModifiers_def calculateFacingModifiers_def getTerrainAt_def
        duelState_def duelAttacker_def duelDefender_def recruit_def ruinTile_def
        providesCover_def Let_def attackerStatusModifier_def namedEffect_def
        toLowerCase_def lowerChar_def)

lemma duel_preview_destroyed:
  "calculateHitChance duelAttacker duelDefender (duelState (ruinTile (3 / 5) True None))
      meleePreview 0
     = Inr \<lparr>baseHitChance = 13 / 20, effectiveHitChance = 13 / 20, criticalChance = 1 / 20,
            rollType = ''normal'', hc_attackBonus = 2, hc_defenseValue = 10,
            hc_requiredRoll = 8,
            situationalModifiers =
              \<lparr>attackerAdvantage = False, attackerDisadvantage = False,
               defenderAdvantage = False, defenderDisadvantage = False,
               coverBonus = 0, heightBonus = 0, flanking = False, backstab = False,
               effectTags = []\<rparr>\<rparr>"
proof -
  have cls: "unit_class duelAttacker = ''SWORDSMAN''"
    by (simp add: duelAttacker_def recruit_def)
  have rng: "\<not> isRangedAttack duelAttacker duelDefender"
    by (simp add: isRangedAttack_def calculateDistance_def duelAttacker_def duelDefender_def
          recruit_def Let_def)
  have hid: "getHiddenData duelAttacker = \<lparr>d_abilities = baseAbilities, d_level = 1,
        d_equipment = Map.empty, d_visibleStats = baseVisibleStats, d_situational = Map.empty\<rparr>"
      "getHiddenData duelDefender = \<lparr>d_abilities = baseAbilities, d_level = 1,
        d_equipment = Map.empty, d_visibleStats = baseVisibleStats, d_situational = Map.empty\<rparr>"
    by (simp_all add: duelAttacker_def duelDefender_def recruit_hidden)
  show ?thesis
    unfolding calculateHitChance_def Let_def duel_calculate_destroyed hid
    by (simp add: cls rng meleePreview_def resolveRollType_def calculatePhysicalAttack_eq
          calculatePhysicalDV_eq calculateCriticalChances_def calculateThreatRange_eq
          calculateHitProbabilities_def base_modifiers calculateProficiency_def
          orDefault_def D20_MAX_def Let_def baseVisibleStats_def calculateModifier_values)
qed

lemma duel_preview_blessed:
  "calculateHitChance (duelAttacker\<lparr>statusEffects := [namedEffect ''blessed'' ''buff'']\<rparr>)
      duelDefender (duelState (ruinTile (3 / 5) False None)) meleePreview 0
     = Inr \<lparr>baseHitChance = 1 / 2, effectiveHitChance = 1 / 2, criticalChance = 1 / 20,
            rollType = ''normal'', hc_attackBonus = 2, hc_defenseValue = 13,
            hc_requiredRoll = 11,
            situationalModifiers =
              \<lparr>attackerAdvantage = True, attackerDisadvantage = True,
               defenderAdvantage = False, defenderDisadvantage = False,
               coverBonus = 3 / 5, heightBonus = 0, flanking = False, backstab = False,
               effectTags = [\<lparr>tag_source = ''attacker'', tag_effect = ''blessed'',
                              tag_type = ''buff''\<rparr>]\<rparr>\<rparr>"
proof -
  have cls: "unit_class (duelAttacker\<lparr>statusEffects := [namedEffect ''blessed'' ''buff'']\<rparr>)
               = ''SWORDSMAN''"
    by (simp add: duelAttacker_def recruit_def)
  have rng: "\<not> isRangedAttack (duelAttacker\<lparr>statusEffects := [namedEffect ''blessed'' ''buff'']\<rparr>)
               duelDefender"
    by (simp add: isRangedAttack_def calculateDistance_def duelAttacker_def duelDefender_def
          recruit_def Let_def)
  have hid: "getHiddenData (duelAttacker\<lparr>statusEffects := [namedEffect ''blessed'' ''buff'']\<rparr>)
        = \<lparr>d_abilities = baseAbilities, d_level = 1,
        d_equipment = Map.empty, d_visibleStats = baseVisibleStats, d_situational = Map.empty\<rparr>"
      "getHiddenData duelDefender = \<lparr>d_abilities = baseAbilities, d_level = 1,
        d_equipment = Map.empty, d_visibleStats = baseVisibleStats, d_situational = Map.empty\<rparr>"
    by (simp_all add: duelAttacker_def duelDefender_def getHiddenData_def recruit_def
          getEquipmentAbilityModifiers_def getCurrentStats_def applyEffect_def getModifiers_def
          namedEffect_def noEffects_def hasExpired_def modifyStat_def baseVisibleStats_def)
  show ?thesis
    unfolding calculateHitChance_def Let_def duel_calculate_blessed hid
    by (simp add: cls rng meleePreview_def resolveRollType_def calculatePhysicalAttack_eq
          calculatePhysicalDV_eq calculateCriticalChances_def calculateThreatRange_eq
          calculateHitProbabilities_def base_modifiers calculateProficiency_def
          orDefault_def D20_MAX_def Let_def baseVisibleStats_def calculateModifier_values)
qed

text \<open>
  The scenario of the spec: cover 0.6 under the defender, an adjacent swordsman without any
  advantage source: disadvantage, normal chance 1/2, effective chance 1/4.  The same attacker
  under a \<open>blessed\<close> effect has both sources and rolls normally.
\<close>

theorem cover_disadvantage_preview_witness:
  "map_sum id rollType
      (calculateHitChance duelAttacker duelDefender (duelState (ruinTile (3 / 5) False None))
         meleePreview 0) = Inr ''disadvantage''
   \<and> map_sum id (attackerDisadvantage \<circ> situationalModifiers)
      (calculateHitChance duelAttacker duelDefender (duelState (ruinTile (3 / 5) False None))
         meleePreview 0) = Inr True
   \<and> map_sum id baseHitChance
      (calculateHitChance duelAttacker duelDefender (duelState (ruinTile (3 / 5) False None))
         meleePreview 0) = Inr (1 / 2)
   \<and> map_sum id effectiveHitChance
      (calculateHitChance duelAttacker duelDefender (duelState (ruinTile (3 / 5) False None))
         meleePreview 0) = Inr (1 / 2 * (1 / 2))
   \<and> map_sum id rollType
      (calculateHitChance (duelAttacker\<lparr>statusEffects := [namedEffect ''blessed'' ''buff'']\<rparr>)
         duelDefender (duelState (ruinTile (3 / 5) False None)) meleePreview 0) = Inr ''normal''
   \<and> map_sum id effectiveHitChance
      (calculateHitChance (duelAttacker\<lparr>statusEffects := [namedEffect ''blessed'' ''buff'']\<rparr>)
         duelDefender (duelState (ruinTile (3 / 5) False None)) meleePreview 0) = Inr (1 / 2)"
proof -
  have tile: "getTerrainAt (duelState (ruinTile (3 / 5) False None))
                (fst (position duelDefender)) (snd (position duelDefender))
              = Some (ruinTile (3 / 5) False None)"
       "providesCover (ruinTile (3 / 5) False None)"
       "coverValue (ruinTile (3 / 5) False None) = 3 / 5"
    by (simp_all add: getTerrainAt_def duelState_def duelDefender_def recruit_def ruinTile_def
          providesCover_def)
  from cover_disadvantage_preview[where a = duelAttacker and d = duelDefender
      and cs = "duelState (ruinTile (3 / 5) False None)" and angle = 0
      and t = "ruinTile (3 / 5) False None" and opts = meleePreview
      and h = "\<lparr>baseHitChance = 1 / 2, effectiveHitChance = 1 / 4, criticalChance = 1 / 400,
            rollType = ''disadvantage'', hc_attackBonus = 2, hc_defenseValue = 13,
            hc_requiredRoll = 11,
            situationalModifiers =
              \<lparr>attackerAdvantage = False, attackerDisadvantage = True,
               defenderAdvantage = False, defenderDisadvantage = False,
               coverBonus = 3 / 5, heightBonus = 0, flanking = False, backstab = False,
               effectTags = []\<rparr>\<rparr>"]
    cover_disadvantage_preview[where a = "duelAttacker\<lparr>statusEffects := [namedEffect ''blessed'' ''buff'']\<rparr>"
      and d = duelDefender
      and cs = "duelState (ruinTile (3 / 5) False None)" and angle = 0
      and t = "ruinTile (3 / 5) False None" and opts = meleePreview
      and h = "\<lparr>baseHitChance = 1 / 2, effectiveHitChance = 1 / 2, criticalChance = 1 / 20,
            rollType = ''normal'', hc_attackBonus = 2, hc_defenseValue = 13,
            hc_requiredRoll = 11,
            situationalModifiers =
              \<lparr>attackerAdvantage = True, attackerDisadvantage = True,
               defenderAdvantage = False, defenderDisadvantage = False,
               coverBonus = 3 / 5, heightBonus = 0, flanking = False, backstab = False,
               effectTags = [\<lparr>tag_source = ''attacker'', tag_effect = ''blessed'',
                              tag_type = ''buff''\<rparr>]\<rparr>\<rparr>"]
  show ?thesis
    by (simp add: duel_preview duel_preview_blessed tile)
qed

text \<open>
  Claim C6 as stated fails on a destructible tile without hit points: its cover value is 0.6,
  it provides no cover, the layer reports neither advantage nor disadvantage, and the
  effective hit chance 13/20 is not the square of the normal chance 13/20.
\<close>

theorem destroyed_cover_counterexample:
  "coverValue (ruinTile (3 / 5) True None) \<ge> 1 / 2
   \<and> getTerrainAt (duelState (ruinTile (3 / 5) True None))
        (fst (position duelDefender)) (snd (position duelDefender))
       = Some (ruinTile (3 / 5) True None)
   \<and> map_sum id (attackerAdvantage \<circ> situationalModifiers)
      (calculateHitChance duelAttacker duelDefender (duelState (ruinTile (3 / 5) True None))
         meleePreview 0) = Inr False
   \<and> map_sum id (attackerDisadvantage \<circ> situationalModifiers)
      (calculateHitChance duelAttacker duelDefender (duelState (ruinTile (3 / 5) True None))
         meleePreview 0) = Inr False
   \<and> map_sum id baseHitChance
      (calculateHitChance duelAttacker duelDefender (duelState (ruinTile (3 / 5) True None))
         meleePreview 0) = Inr (13 / 20)
   \<and> map_sum id effectiveHitChance
      (calculateHitChance duelAttacker duelDefender (duelState (ruinTile (3 / 5) True None))
         meleePreview 0) = Inr (13 / 20)"
proof -
  have tile: "getTerrainAt (duelState (ruinTile (3 / 5) True None))
                (fst (position duelDefender)) (snd (position duelDefender))
              = Some (ruinTile (3 / 5) True None)"
       "coverValue (ruinTile (3 / 5) True None) = 3 / 5"
    by (simp_all add: getTerrainAt_def duelState_def duelDefender_def recruit_def ruinTile_def)
  show ?thesis
    by (simp add: duel_preview_destroyed tile)
qed

section \<open>Properties of the action-point economy\<close>

lemma logEvent_keeps: "apModifiers (logEvent sys ev) = apModifiers sys"
  "logActions (logEvent sys ev) = logActions sys"
  "\<not> logActions sys \<Longrightarrow> logEvent sys ev = sys"
  by (simp_all add: logEvent_def)

lemma actionCost_logEvent: "actionCost (logEvent sys ev) u act = actionCost sys u act"
  by (simp add: actionCost_def logEvent_keeps)

lemma canAffordAction_result:
  "fst (canAffordAction w) =
     \<lparr>canAfford = (currentAP (w_unit w) \<ge> actionCost (w_system w) (w_unit w) (w_action w)),
      cost = actionCost (w_system w) (w_unit w) (w_action w),
      available = currentAP (w_unit w),
      remaining = (if currentAP (w_unit w) \<ge> actionCost (w_system w) (w_unit w) (w_action w)
                   then currentAP (w_unit w) - actionCost (w_system w) (w_unit w) (w_action w)
                   else currentAP (w_unit w)),
      deficit = (if currentAP (w_unit w) \<ge> actionCost (w_system w) (w_unit w) (w_action w)
                 then 0
                 else actionCost (w_system w) (w_unit w) (w_action w) - currentAP (w_unit w))\<rparr>"
  by (simp add: canAffordAction_def calculateActionCost_def Let_def split_def)

lemma canAffordAction_pure:
  "w_unit (snd (canAffordAction w)) = w_unit w"
  "w_action (snd (canAffordAction w)) = w_action w"
  "apModifiers (w_system (snd (canAffordAction w))) = apModifiers (w_system w)"
  "logActions (w_system (snd (canAffordAction w))) = logActions (w_system w)"
  by (simp_all add: canAffordAction_def calculateActionCost_def Let_def split_def logEvent_keeps)

lemma canAffordAction_silent:
  "\<not> logActions (w_system w) \<Longrightarrow> snd (canAffordAction w) = w"
  by (simp add: canAffordAction_def calculateActionCost_def Let_def split_def logEvent_keeps)

lemma spendAP_result:
  "fst (spendAP w) \<longleftrightarrow>
     currentAP (w_unit w) \<ge> actionCost (w_system w) (w_unit w) (w_action w)
     \<and> \<not> isIncapacitated (w_unit w)"
  by (simp add: spendAP_def Let_def split_def canAffordAction_result canAffordAction_pure
        unitSpendAP_def)

lemma spendAP_success:
  "fst (spendAP w) \<Longrightarrow>
     w_unit (snd (spendAP w))
       = (w_unit w)\<lparr>currentAP := max 0 (currentAP (w_unit w)
                                          - actionCost (w_system w) (w_unit w) (w_action w)),
                    hasActedThisTurn := True\<rparr>
     \<and> w_action (snd (spendAP w))
       = (w_action w)\<lparr>modifiedCost := actionCost (w_system w) (w_unit w) (w_action w)\<rparr>"
  by (simp add: spendAP_def Let_def split_def canAffordAction_result canAffordAction_pure
        unitSpendAP_def split: if_splits)

lemma spendAP_failure:
  "\<not> fst (spendAP w) \<Longrightarrow>
     w_unit (snd (spendAP w)) = w_unit w \<and> w_action (snd (spendAP w)) = w_action w"
  by (simp add: spendAP_def Let_def split_def canAffordAction_result canAffordAction_pure
        unitSpendAP_def split: if_splits)

lemma spendAP_system:
  "apModifiers (w_system (snd (spendAP w))) = apModifiers (w_system w)"
  by (simp add: spendAP_def Let_def split_def canAffordAction_result canAffordAction_pure
        unitSpendAP_def logEvent_keeps)


lemma slow_lower: "toLowerCase ''slow'' = ''slow''"
  by (simp add: toLowerCase_def lowerChar_def)

lemma slow_cost:
  assumes "statusEffects u = [namedEffect ''slow'' ''debuff'']" "equipment u = []"
    "apModifiers sys (unit_id u) = None" "abilityId act = None" "baseCost act = 1"
  shows "actionCost sys u act = 2"
  using assms
  by (simp add: actionCost_def applyStatusEffectCostModifiers_def statusEffectCost_def
        applyEquipmentCostModifiers_def namedEffect_def noEffects_def slow_lower Let_def)

lemma unslowed_cost:
  assumes "statusEffects u = []" "equipment u = []"
    "apModifiers sys (unit_id u) = None" "abilityId act = None" "baseCost act = 1"
  shows "actionCost sys u act = 1"
  using assms
  by (simp add: actionCost_def applyStatusEffectCostModifiers_def
        applyEquipmentCostModifiers_def Let_def)

lemma slow_scenario:
  assumes ap: "currentAP (w_unit w) = 3" and act: "\<not> isIncapacitated (w_unit w)"
    and st: "statusEffects (w_unit w) = [namedEffect ''slow'' ''debuff'']"
    and eq: "equipment (w_unit w) = []"
    and md: "apModifiers (w_system w) (unit_id (w_unit w)) = None"
    and a1: "baseCost (w_action w) = 1" "abilityId (w_action w) = None"
    and a2: "baseCost act2 = 1" "abilityId act2 = None"
  shows "cost (fst (canAffordAction w)) = 2"
    and "fst (spendAP w)"
    and "currentAP (w_unit (snd (spendAP w))) = 1"
    and "hasActedThisTurn (w_unit (snd (spendAP w)))"
    and "\<not> canAfford (fst (canAffordAction ((snd (spendAP w))\<lparr>w_action := act2\<rparr>)))"
    and "cost (fst (canAffordAction ((snd (spendAP w))\<lparr>w_action := act2\<rparr>))) = 2"
    and "deficit (fst (canAffordAction ((snd (spendAP w))\<lparr>w_action := act2\<rparr>))) = 1"
    and "canAfford (fst (canAffordAction ((snd (spendAP w))
           \<lparr>w_action := act2,
            w_unit := (w_unit (snd (spendAP w)))\<lparr>statusEffects := []\<rparr>\<rparr>)))"
proof -
  have c: "actionCost (w_system w) (w_unit w) (w_action w) = 2"
    using st eq md a1 by (intro slow_cost) simp_all
  show "cost (fst (canAffordAction w)) = 2"
    by (simp add: canAffordAction_result c)
  show ok: "fst (spendAP w)"
    by (simp add: spendAP_result c ap act)
  have u': "w_unit (snd (spendAP w)) = (w_unit w)\<lparr>currentAP := 1, hasActedThisTurn := True\<rparr>"
    using spendAP_success[OF ok] by (simp add: c ap)
  show "currentAP (w_unit (snd (spendAP w))) = 1" by (simp add: u')
  show "hasActedThisTurn (w_unit (snd (spendAP w)))" by (simp add: u')
  have sys': "apModifiers (w_system (snd (spendAP w))) = apModifiers (w_system w)"
    by (rule spendAP_system)
  have c2: "actionCost (w_system (snd (spendAP w))) (w_unit (snd (spendAP w))) act2 = 2"
    using st eq md a2 by (intro slow_cost) (simp_all add: u' sys')
  show "\<not> canAfford (fst (canAffordAction ((snd (spendAP w))\<lparr>w_action := act2\<rparr>)))"
    by (simp add: canAffordAction_result c2) (simp add: u')
  show "cost (fst (canAffordAction ((snd (spendAP w))\<lparr>w_action := act2\<rparr>))) = 2"
    by (simp add: canAffordAction_result c2)
  show "deficit (fst (canAffordAction ((snd (spendAP w))\<lparr>w_action := act2\<rparr>))) = 1"
    by (simp add: canAffordAction_result c2) (simp add: u')
  have c3: "actionCost (w_system (snd (spendAP w)))
              ((w_unit (snd (spendAP w)))\<lparr>statusEffects := []\<rparr>) act2 = 1"
    using eq md a2 by (intro unslowed_cost) (simp_all add: u' sys')
  show "canAfford (fst (canAffordAction ((snd (spendAP w))
           \<lparr>w_action := act2,
            w_unit := (w_unit (snd (spendAP w)))\<lparr>statusEffects := []\<rparr>\<rparr>)))"
    by (simp add: canAffordAction_result c3) (simp add: u')
qed


text \<open>
  Claim C7, amended.  \<open>canAffordAction\<close> never changes the unit, the action or the standing
  modifiers (it only appends to the debugging log, and nothing at all when logging is off), and
  it reports \<open>canAfford\<close> exactly when the current AP cover the computed cost.  \<open>spendAP\<close>
  returns true exactly when that check succeeds and the unit is not incapacitated; then it
  deducts the cost and marks the unit as having acted; otherwise it returns false and leaves
  the unit and the action unchanged.  In the scenario of a unit with 3 AP under a \<open>slow\<close>
  debuff, a move of base cost 1 costs 2, the spend succeeds and leaves 1 AP; a subsequent
  affordability check for a second move of base cost 1 returns false with a deficit of 1 while
  the debuff lasts, and true once the debuff is gone.
\<close>

theorem ap_afford_and_spend:
  "w_unit (snd (canAffordAction w)) = w_unit w
   \<and> w_action (snd (canAffordAction w)) = w_action w
   \<and> apModifiers (w_system (snd (canAffordAction w))) = apModifiers (w_system w)
   \<and> (\<not> logActions (w_system w) \<longrightarrow> snd (canAffordAction w) = w)
   \<and> cost (fst (canAffordAction w)) = actionCost (w_system w) (w_unit w) (w_action w)
   \<and> (canAfford (fst (canAffordAction w))
        \<longleftrightarrow> currentAP (w_unit w) \<ge> cost (fst (canAffordAction w)))
   \<and> (fst (spendAP w)
        \<longleftrightarrow> canAfford (fst (canAffordAction w)) \<and> \<not> isIncapacitated (w_unit w))
   \<and> (fst (spendAP w) \<longrightarrow>
        currentAP (w_unit (snd (spendAP w)))
          = max 0 (currentAP (w_unit w) - cost (fst (canAffordAction w)))
        \<and> hasActedThisTurn (w_unit (snd (spendAP w))))
   \<and> (\<not> fst (spendAP w) \<longrightarrow>
        w_unit (snd (spendAP w)) = w_unit w \<and> w_action (snd (spendAP w)) = w_action w)
   \<and> (currentAP (w_unit w) = 3 \<and> \<not> isIncapacitated (w_unit w)
         \<and> statusEffects (w_unit w) = [namedEffect ''slow'' ''debuff'']
         \<and> equipment (w_unit w) = []
         \<and> apModifiers (w_system w) (unit_id (w_unit w)) = None
         \<and> action_type (w_action w) = ''MOVE'' \<and> baseCost (w_action w) = 1
         \<and> abilityId (w_action w) = None
         \<and> action_type move2 = ''MOVE'' \<and> baseCost move2 = 1 \<and> abilityId move2 = None
        \<longrightarrow> cost (fst (canAffordAction w)) = 2
          \<and> fst (spendAP w)
          \<and> currentAP (w_unit (snd (spendAP w))) = 1
          \<and> hasActedThisTurn (w_unit (snd (spendAP w)))
          \<and> \<not> canAfford (fst (canAffordAction ((snd (spendAP w))\<lparr>w_action := move2\<rparr>)))
          \<and> deficit (fst (canAffordAction ((snd (spendAP w))\<lparr>w_action := move2\<rparr>))) = 1
          \<and> canAfford (fst (canAffordAction ((snd (spendAP w))
                \<lparr>w_action := move2,
                 w_unit := (w_unit (snd (spendAP w)))\<lparr>statusEffects := []\<rparr>\<rparr>))))"
proof -
  have q4: "\<not> logActions (w_system w) \<longrightarrow> snd (canAffordAction w) = w"
    using canAffordAction_silent by blast
  have q5: "cost (fst (canAffordAction w)) = actionCost (w_system w) (w_unit w) (w_action w)"
    by (simp add: canAffordAction_result)
  have q6: "canAfford (fst (canAffordAction w))
        \<longleftrightarrow> currentAP (w_unit w) \<ge> cost (fst (canAffordAction w))"
    by (simp add: canAffordAction_result)
  have q7: "fst (spendAP w)
        \<longleftrightarrow> canAfford (fst (canAffordAction w)) \<and> \<not> isIncapacitated (w_unit w)"
    by (simp add: canAffordAction_result spendAP_result)
  have q8: "fst (spendAP w) \<longrightarrow>
        currentAP (w_unit (snd (spendAP w)))
          = max 0 (currentAP (w_unit w) - cost (fst (canAffordAction w)))
        \<and> hasActedThisTurn (w_unit (snd (spendAP w)))"
    using spendAP_success[of w] by (simp add: q5)
  have q9: "\<not> fst (spendAP w) \<longrightarrow>
        w_unit (snd (spendAP w)) = w_unit w \<and> w_action (snd (spendAP w)) = w_action w"
    using spendAP_failure by blast
  have q10: "currentAP (w_unit w) = 3 \<and> \<not> isIncapacitated (w_unit w)
         \<and> statusEffects (w_unit w) = [namedEffect ''slow'' ''debuff'']
         \<and> equipment (w_unit w) = []
         \<and> apModifiers (w_system w) (unit_id (w_unit w)) = None
         \<and> action_type (w_action w) = ''MOVE'' \<and> baseCost (w_action w) = 1
         \<and> abilityId (w_action w) = None
         \<and> action_type move2 = ''MOVE'' \<and> baseCost move2 = 1 \<and> abilityId move2 = None
        \<longrightarrow> cost (fst (canAffordAction w)) = 2
          \<and> fst (spendAP w)
          \<and> currentAP (w_unit (snd (spendAP w))) = 1
          \<and> hasActedThisTurn (w_unit (snd (spendAP w)))
          \<and> \<not> canAfford (fst (canAffordAction ((snd (spendAP w))\<lparr>w_action := move2\<rparr>)))
          \<and> deficit (fst (canAffordAction ((snd (spendAP w))\<lparr>w_action := move2\<rparr>))) = 1
          \<and> canAfford (fst (canAffordAction ((snd (spendAP w))
                \<lparr>w_action := move2,
                 w_unit := (w_unit (snd (spendAP w)))\<lparr>statusEffects := []\<rparr>\<rparr>)))"
  proof
    assume h: "currentAP (w_unit w) = 3 \<and> \<not> isIncapacitated (w_unit w)
         \<and> statusEffects (w_unit w) = [namedEffect ''slow'' ''debuff'']
         \<and> equipment (w_unit w) = []
         \<and> apModifiers (w_system w) (unit_id (w_unit w)) = None
         \<and> action_type (w_action w) = ''MOVE'' \<and> baseCost (w_action w) = 1
         \<and> abilityId (w_action w) = None
         \<and> action_type move2 = ''MOVE'' \<and> baseCost move2 = 1 \<and> abilityId move2 = None"
    note sc = slow_scenario[of w move2]
    show "cost (fst (canAffordAction w)) = 2
          \<and> fst (spendAP w)
          \<and> currentAP (w_unit (snd (spendAP w))) = 1
          \<and> hasActedThisTurn (w_unit (snd (spendAP w)))
          \<and> \<not> canAfford (fst (canAffordAction ((snd (spendAP w))\<lparr>w_action := move2\<rparr>)))
          \<and> deficit (fst (canAffordAction ((snd (spendAP w))\<lparr>w_action := move2\<rparr>))) = 1
          \<and> canAfford (fst (canAffordAction ((snd (spendAP w))
                \<lparr>w_action := move2,
                 w_unit := (w_unit (snd (spendAP w)))\<lparr>statusEffects := []\<rparr>\<rparr>)))"
      using h sc by blast
  qed
  show ?thesis
    by (intro conjI) (fact canAffordAction_pure(1) canAffordAction_pure(2)
          canAffordAction_pure(3) q4 q5 q6 q7 q8 q9 q10)+
qed

text \<open>
  The scenario on concrete data, followed by a second spend, which is refused and changes
  nothing.
\<close>

theorem ap_afford_and_spend_witness:
  "w_unit (snd (canAffordAction slowedWorld)) = w_unit slowedWorld
   \<and> cost (fst (canAffordAction slowedWorld)) = 2
   \<and> fst (spendAP slowedWorld)
   \<and> currentAP (w_unit (snd (spendAP slowedWorld))) = 1
   \<and> hasActedThisTurn (w_unit (snd (spendAP slowedWorld)))
   \<and> \<not> canAfford (fst (canAffordAction ((snd (spendAP slowedWorld))\<lparr>w_action := moveAction\<rparr>)))
   \<and> canAfford (fst (canAffordAction ((snd (spendAP slowedWorld))
         \<lparr>w_action := moveAction,
          w_unit := (w_unit (snd (spendAP slowedWorld)))\<lparr>statusEffects := []\<rparr>\<rparr>)))
   \<and> \<not> fst (spendAP (snd (spendAP slowedWorld)))
   \<and> w_unit (snd (spendAP (snd (spendAP slowedWorld)))) = w_unit (snd (spendAP slowedWorld))"
proof -
  have s: "currentAP (w_unit slowedWorld) = 3" "\<not> isIncapacitated (w_unit slowedWorld)"
    "statusEffects (w_unit slowedWorld) = [namedEffect ''slow'' ''debuff'']"
    "equipment (w_unit slowedWorld) = []"
    "apModifiers (w_system slowedWorld) (unit_id (w_unit slowedWorld)) = None"
    "action_type (w_action slowedWorld) = ''MOVE''" "baseCost (w_action slowedWorld) = 1"
    "abilityId (w_action slowedWorld) = None"
    "action_type moveAction = ''MOVE''" "baseCost moveAction = 1" "abilityId moveAction = None"
    by (simp_all add: slowedWorld_def recruit_def plainSystem_def moveAction_def MAX_PER_TURN_def)
  note first = ap_afford_and_spend[of slowedWorld moveAction]
  have second: "\<not> canAfford (fst (canAffordAction (snd (spendAP slowedWorld))))"
  proof -
    have "cost (fst (canAffordAction (snd (spendAP slowedWorld)))) = 2"
      using first s
      by (simp add: canAffordAction_result spendAP_success spendAP_system slow_cost)
    then show ?thesis
      using first s by (simp add: canAffordAction_result)
  qed
  note again = ap_afford_and_spend[of "snd (spendAP slowedWorld)" moveAction]
  show ?thesis
    using first again s second by simp
qed

text \<open>
  Claim C7 as stated fails in its own scenario: after the first move the unit has 1 AP, the
  second move of base cost 1 still costs 2 under the debuff, and the check returns false.
\<close>

theorem second_move_counterexample:
  "currentAP (w_unit slowedWorld) = 3
   \<and> fst (spendAP slowedWorld)
   \<and> currentAP (w_unit (snd (spendAP slowedWorld))) = 1
   \<and> \<not> canAfford (fst (canAffordAction ((snd (spendAP slowedWorld))\<lparr>w_action := moveAction\<rparr>)))"
proof -
  have s: "currentAP (w_unit slowedWorld) = 3" "\<not> isIncapacitated (w_unit slowedWorld)"
    "statusEffects (w_unit slowedWorld) = [namedEffect ''slow'' ''debuff'']"
    "equipment (w_unit slowedWorld) = []"
    "apModifiers (w_system slowedWorld) (unit_id (w_unit slowedWorld)) = None"
    "baseCost (w_action slowedWorld) = 1"
    "abilityId (w_action slowedWorld) = None"
    "baseCost moveAction = 1" "abilityId moveAction = None"
    by (simp_all add: slowedWorld_def recruit_def plainSystem_def moveAction_def MAX_PER_TURN_def)
  show ?thesis
    using slow_scenario(2,3,5)[of slowedWorld moveAction] s by simp
qed

section \<open>Deployment\<close>

lemma moveUnit_fails_unchanged: "\<not> fst (moveUnit s uid x y) \<Longrightarrow> snd (moveUnit s uid x y) = s"
  by (auto simp: moveUnit_def split: option.splits if_splits)

lemma moveUnit_succeeds_iff:
  "fst (moveUnit s uid x y) \<longleftrightarrow>
     getUnit s uid \<noteq> None \<and> 0 \<le> x \<and> x < mapWidth s \<and> 0 \<le> y \<and> y < mapHeight s
     \<and> unitPositions s (x, y) = None"
  by (auto simp: moveUnit_def split: option.splits if_splits)

lemma deployUnit_guards:
  "(fst (deployUnit s uid x y) \<longleftrightarrow>
      phase s = ''DEPLOYMENT'' \<and> getUnit s uid \<noteq> None \<and> uid \<notin> deployedUnits s
      \<and> 0 \<le> x \<and> x < mapWidth s \<and> 0 \<le> y \<and> y < mapHeight s
      \<and> unitPositions s (x, y) = None)
   \<and> (\<not> fst (deployUnit s uid x y) \<longrightarrow> snd (deployUnit s uid x y) = s)"
  using moveUnit_fails_unchanged[of s uid x y] moveUnit_succeeds_iff[of s uid x y]
  by (auto simp: deployUnit_def split_def Let_def)

text \<open>
  Claim C8.  The claim says that \<open>deployUnit\<close> succeeds only on an in-bounds, unoccupied and
  passable tile.  The code checks the phase, the unit, the bounds and the occupancy (the lemma
  above), but not the terrain: in the deployment phase an undeployed unit is deployed onto
  the water tile at \<open>(5, 5)\<close>, a position for which \<open>isPositionPassable\<close> answers false, and
  the state is changed.
\<close>

theorem deploy_on_water:
  "phase lakeState = ''DEPLOYMENT''
   \<and> getUnit lakeState ''u1'' = Some (recruit ''u1'')
   \<and> ''u1'' \<notin> deployedUnits lakeState
   \<and> getTerrainAt lakeState 5 5 = Some waterTile
   \<and> getMoveCost waterTile ''normal'' = InfinityCost
   \<and> \<not> isPositionPassable lakeState 5 5 ''normal''
   \<and> fst (deployUnit lakeState ''u1'' 5 5)
   \<and> deployedUnits (snd (deployUnit lakeState ''u1'' 5 5)) = {''u1''}
   \<and> unitPositions (snd (deployUnit lakeState ''u1'' 5 5)) (5, 5) = Some ''u1''
   \<and> map_option position (getUnit (snd (deployUnit lakeState ''u1'' 5 5)) ''u1'') = Some (5, 5)"
  by (simp add: deployUnit_def moveUnit_def getUnit_def lakeState_def isPositionPassable_def
        getUnitAtPosition_def getTerrainAt_def getMoveCost_def waterTile_def recruit_def)

section \<open>Initiative order\<close>


















































end
